theory Spec2Isabelle
  imports Complex_Main "HOL-Library.Monad_Syntax"
begin

section \<open>Birds Party: symbols, levels and static tables\<close>

text \<open>
  The game engine is written in Go. A \<open>Symbol\<close> is a Go string and a grid is a
  \<open>[][]string\<close>, so cells range over all strings (the empty string marks a removed
  cell). \<open>Level\<close> is a Go \<open>int\<close>; the level methods fall back to the level-1 values
  on any other number. Monetary amounts are \<open>float64\<close> in the source and are modelled by
  exact rationals.
\<close>

type_synonym Symbol = string

definition SymbolPurpleOwl :: Symbol where "SymbolPurpleOwl = ''purple_owl''"
definition SymbolGreenOwl :: Symbol where "SymbolGreenOwl = ''green_owl''"
definition SymbolYellowOwl :: Symbol where "SymbolYellowOwl = ''yellow_owl''"
definition SymbolBlueOwl :: Symbol where "SymbolBlueOwl = ''blue_owl''"
definition SymbolRedOwl :: Symbol where "SymbolRedOwl = ''red_owl''"
definition SymbolFreeGame :: Symbol where "SymbolFreeGame = ''free_game''"
definition SymbolOrangeSlice :: Symbol where "SymbolOrangeSlice = ''orange_slice''"
definition SymbolHoneyPot :: Symbol where "SymbolHoneyPot = ''honey_pot''"
definition SymbolStrawberry :: Symbol where "SymbolStrawberry = ''strawberry''"


definition StageProgressTarget :: int where "StageProgressTarget = 15"
definition FreeSpinsAwarded :: int where "FreeSpinsAwarded = 10"

type_synonym Level = int

definition Level1 :: Level where "Level1 = 1"
definition Level2 :: Level where "Level2 = 2"
definition Level3 :: Level where "Level3 = 3"

lemmas Level_defs = Level1_def Level2_def Level3_def

record Position =
  X :: int
  Y :: int

record StageClearedSymbol =
  sc_Symbol :: Symbol
  sc_Position :: Position

record Connection =
  Symbol :: Symbol
  Positions :: "Position list"
  Count :: int
  Payout :: rat

type_synonym Grid = "string list list"

definition GetMinConnection :: "Level \<Rightarrow> int" where
  "GetMinConnection l =
     (if l = Level1 then 4 else if l = Level2 then 5 else if l = Level3 then 6 else 4)"

definition GetGridSize :: "Level \<Rightarrow> int" where
  "GetGridSize l =
     (if l = Level1 then 4 else if l = Level2 then 5 else if l = Level3 then 6 else 4)"

definition GetStageClearedSymbol :: "Level \<Rightarrow> Symbol" where
  "GetStageClearedSymbol l =
     (if l = Level1 then SymbolOrangeSlice
      else if l = Level2 then SymbolHoneyPot
      else if l = Level3 then SymbolStrawberry
      else SymbolOrangeSlice)"

text \<open>
  \<open>BetAmountToMultiplier\<close> is a Go map; indexing it with a missing key yields the
  zero value \<open>0\<close>.
\<close>

definition BetAmountToMultiplier :: "(rat \<times> int) list" where
  "BetAmountToMultiplier =
     [(1/10, 1), (2/10, 2), (3/10, 3), (5/10, 5), (1, 10), (2, 20), (25/10, 25)]"

definition lookupMultiplier :: "rat \<Rightarrow> int" where
  "lookupMultiplier amount =
     (case map_of BetAmountToMultiplier amount of Some m \<Rightarrow> m | None \<Rightarrow> 0)"

text \<open>
  \<open>GetLevelSpecificWeights\<close> builds a fresh map; the association list keeps the order
  in which the source inserts the keys. The order in which Go later ranges over the map is
  not this order: it is chosen by the runtime (see \<open>mapOrder\<close> below).
\<close>

definition GetLevelSpecificWeights :: "Level \<Rightarrow> (Symbol \<times> rat) list" where
  "GetLevelSpecificWeights level =
     [(SymbolPurpleOwl, 2475/10000), (SymbolGreenOwl, 2475/10000),
      (SymbolYellowOwl, 2475/10000), (SymbolBlueOwl, 2475/10000),
      (SymbolRedOwl, 2475/10000), (SymbolFreeGame, 1/1000)] @
     (if level = Level1 then [(SymbolOrangeSlice, 2/1000)]
      else if level = Level2 then [(SymbolHoneyPot, 2/1000)]
      else if level = Level3 then [(SymbolStrawberry, 2/1000)]
      else [])"

text \<open>The paytables: symbol, then connected count, then payout at bet multiplier 1.\<close>

definition PaytableLevel1 :: "(Symbol \<times> (int \<times> rat) list) list" where
  "PaytableLevel1 =
   [(SymbolPurpleOwl,
      [(4, 4), (5, 5), (6, 6), (7, 7), (8, 8), (9, 9), (10, 10), (11, 11), (12, 12), (13, 13), (14, 14), (15, 15), (16, 16)]),
    (SymbolGreenOwl,
      [(4, 2), (5, 4), (6, 5), (7, 8), (8, 10), (9, 20), (10, 30), (11, 50), (12, 100), (13, 200), (14, 400), (15, 800), (16, 1600)]),
    (SymbolYellowOwl,
      [(4, 4), (5, 5), (6, 10), (7, 20), (8, 30), (9, 50), (10, 100), (11, 250), (12, 500), (13, 750), (14, 800), (15, 1200), (16, 6000)]),
    (SymbolBlueOwl,
      [(4, 5), (5, 10), (6, 20), (7, 40), (8, 60), (9, 80), (10, 160), (11, 500), (12, 1000), (13, 2000), (14, 5000), (15, 7000), (16, 8000)]),
    (SymbolRedOwl,
      [(4, 10), (5, 30), (6, 50), (7, 60), (8, 100), (9, 750), (10, 1000), (11, 10000), (12, 20000), (13, 50000), (14, 60000), (15, 80000), (16, 100000)])]"

definition PaytableLevel2 :: "(Symbol \<times> (int \<times> rat) list) list" where
  "PaytableLevel2 =
   [(SymbolPurpleOwl,
      [(5, 2), (6, 4), (7, 5), (8, 8), (9, 10), (10, 20), (11, 30), (12, 50), (13, 100), (14, 200), (15, 450), (16, 1000), (17, 1200), (18, 1500), (19, 2000), (20, 2500), (21, 3000), (22, 4000), (23, 5000), (24, 7500), (25, 10000)]),
    (SymbolGreenOwl,
      [(5, 4), (6, 5), (7, 10), (8, 20), (9, 30), (10, 50), (11, 100), (12, 250), (13, 500), (14, 750), (15, 1000), (16, 7000), (17, 8000), (18, 10000), (19, 12000), (20, 15000), (21, 18000), (22, 22000), (23, 27000), (24, 32000), (25, 40000)]),
    (SymbolYellowOwl,
      [(5, 5), (6, 10), (7, 20), (8, 40), (9, 60), (10, 80), (11, 160), (12, 500), (13, 1000), (14, 2000), (15, 5000), (16, 8000), (17, 10000), (18, 12000), (19, 15000), (20, 20000), (21, 25000), (22, 30000), (23, 40000), (24, 50000), (25, 60000)]),
    (SymbolBlueOwl,
      [(5, 10), (6, 30), (7, 50), (8, 60), (9, 100), (10, 750), (11, 1000), (12, 10000), (13, 20000), (14, 50000), (15, 70000), (16, 100000), (17, 120000), (18, 150000), (19, 180000), (20, 220000), (21, 270000), (22, 320000), (23, 400000), (24, 500000), (25, 600000)]),
    (SymbolRedOwl,
      [(5, 20), (6, 50), (7, 100), (8, 500), (9, 1000), (10, 2000), (11, 5000), (12, 20000), (13, 50000), (14, 80000), (15, 100000), (16, 150000), (17, 200000), (18, 300000), (19, 400000), (20, 500000), (21, 600000), (22, 800000), (23, 1000000), (24, 1200000), (25, 1500000)])]"

definition PaytableLevel3 :: "(Symbol \<times> (int \<times> rat) list) list" where
  "PaytableLevel3 =
   [(SymbolPurpleOwl,
      [(6, 2), (7, 4), (8, 5), (9, 8), (10, 10), (11, 20), (12, 30), (13, 50), (14, 100), (15, 200), (16, 500), (17, 600), (18, 750), (19, 900), (20, 1100), (21, 1300), (22, 1600), (23, 2000), (24, 2500), (25, 3000), (26, 3600), (27, 4300), (28, 5100), (29, 6000), (30, 7500), (31, 9000), (32, 11000), (33, 13000), (34, 16000), (35, 20000), (36, 25000)]),
    (SymbolGreenOwl,
      [(6, 4), (7, 5), (8, 10), (9, 20), (10, 30), (11, 50), (12, 100), (13, 250), (14, 500), (15, 1000), (16, 8000), (17, 9000), (18, 10500), (19, 12000), (20, 14000), (21, 16000), (22, 19000), (23, 22000), (24, 26000), (25, 30000), (26, 35000), (27, 40000), (28, 46000), (29, 53000), (30, 60000), (31, 68000), (32, 77000), (33, 87000), (34, 98000), (35, 110000), (36, 125000)]),
    (SymbolYellowOwl,
      [(6, 5), (7, 10), (8, 20), (9, 40), (10, 60), (11, 80), (12, 160), (13, 500), (14, 1000), (15, 5000), (16, 10000), (17, 12000), (18, 14000), (19, 17000), (20, 20000), (21, 24000), (22, 28000), (23, 33000), (24, 39000), (25, 45000), (26, 52000), (27, 60000), (28, 69000), (29, 79000), (30, 90000), (31, 102000), (32, 115000), (33, 130000), (34, 146000), (35, 165000), (36, 185000)]),
    (SymbolBlueOwl,
      [(6, 10), (7, 30), (8, 50), (9, 60), (10, 100), (11, 750), (12, 1000), (13, 10000), (14, 20000), (15, 50000), (16, 100000), (17, 115000), (18, 130000), (19, 150000), (20, 170000), (21, 195000), (22, 220000), (23, 250000), (24, 280000), (25, 315000), (26, 355000), (27, 400000), (28, 450000), (29, 505000), (30, 565000), (31, 630000), (32, 700000), (33, 775000), (34, 860000), (35, 950000), (36, 1050000)]),
    (SymbolRedOwl,
      [(6, 20), (7, 50), (8, 100), (9, 500), (10, 1000), (11, 2000), (12, 5000), (13, 20000), (14, 50000), (15, 100000), (16, 200000), (17, 230000), (18, 265000), (19, 305000), (20, 350000), (21, 400000), (22, 460000), (23, 530000), (24, 610000), (25, 700000), (26, 800000), (27, 920000), (28, 1060000), (29, 1220000), (30, 1400000), (31, 1600000), (32, 1840000), (33, 2120000), (34, 2440000), (35, 2800000), (36, 3200000)])]"

definition GetPaytable :: "Level \<Rightarrow> (Symbol \<times> (int \<times> rat) list) list" where
  "GetPaytable level =
     (if level = Level1 then PaytableLevel1
      else if level = Level2 then PaytableLevel2
      else if level = Level3 then PaytableLevel3
      else PaytableLevel1)"

definition IsStageClearedSymbol :: "Symbol \<Rightarrow> bool" where
  "IsStageClearedSymbol symbol \<longleftrightarrow>
     symbol = SymbolOrangeSlice \<or> symbol = SymbolHoneyPot \<or> symbol = SymbolStrawberry"

definition IsRegularBirdSymbol :: "Symbol \<Rightarrow> bool" where
  "IsRegularBirdSymbol symbol \<longleftrightarrow>
     symbol = SymbolPurpleOwl \<or> symbol = SymbolGreenOwl \<or> symbol = SymbolYellowOwl \<or>
     symbol = SymbolBlueOwl \<or> symbol = SymbolRedOwl"

section \<open>Rounding and payout\<close>

text \<open>
  Go's \<open>math.Round\<close> rounds half away from zero; \<open>round\<close> of the source is
  \<open>math.Round(val*100) / 100\<close>.
\<close>

definition mathRound :: "rat \<Rightarrow> int" where
  "mathRound v = (if 0 \<le> v then \<lfloor>v + 1/2\<rfloor> else - \<lfloor>- v + 1/2\<rfloor>)"

definition round_go :: "rat \<Rightarrow> rat" where
  "round_go val = of_int (mathRound (val * 100)) / 100"

definition calculatePayout :: "Symbol \<Rightarrow> int \<Rightarrow> Level \<Rightarrow> int \<Rightarrow> rat" where
  "calculatePayout symbol count level betMultiplier =
     (case map_of (GetPaytable level) symbol of
        Some payoutMap \<Rightarrow>
          (case map_of payoutMap count of
             Some payout \<Rightarrow> round_go (payout * (1/100) * of_int betMultiplier)
           | None \<Rightarrow> 0)
      | None \<Rightarrow> 0)"

section \<open>Grid cells, and what the random source supplies\<close>

text \<open>
  \<open>grid[y][x]\<close> panics in Go when an index is out of range. \<open>cellAt\<close> and
  \<open>setCell\<close> return \<open>None\<close> there, and every function that indexes a grid carries
  that \<open>None\<close> to its caller. Indices are Go \<open>int\<close>s, hence \<open>int\<close> here.
\<close>

definition inRange :: "int \<Rightarrow> 'a list \<Rightarrow> bool" where
  "inRange i xs \<longleftrightarrow> 0 \<le> i \<and> i < int (length xs)"

definition cellAt :: "'a list list \<Rightarrow> int \<Rightarrow> int \<Rightarrow> 'a option" where
  "cellAt g y x =
     (if inRange y g then
        (if inRange x (g ! nat y) then Some (g ! nat y ! nat x) else None)
      else None)"

definition setCell :: "'a list list \<Rightarrow> int \<Rightarrow> int \<Rightarrow> 'a \<Rightarrow> 'a list list option" where
  "setCell g y x v =
     (if inRange y g then
        (if inRange x (g ! nat y) then Some (g[nat y := (g ! nat y)[nat x := v]]) else None)
      else None)"

text \<open>
  The engine draws from a \<open>*rand.Rand\<close> seeded with the clock, and it ranges over Go
  maps, whose iteration order the runtime picks afresh each time. Both are inputs the
  program does not control. \<open>Rand\<close> holds what they will deliver, in the order the program
  asks: the values of \<open>Float64()\<close>, the raw values behind \<open>Intn(n)\<close> (reduced modulo
  \<open>n\<close>), and one iteration order for each \<open>range\<close> over a map (of symbols, of columns, of
  positions). A list that runs out yields \<open>0\<close>, respectively the empty order. Theorems
  quantify over every \<open>Rand\<close>.
\<close>

record Rand =
  floats :: "rat list"
  intns :: "nat list"
  symbolOrders :: "Symbol list list"
  columnOrders :: "int list list"
  positionOrders :: "Position list list"

definition Float64 :: "Rand \<Rightarrow> rat \<times> Rand" where
  "Float64 r = (case floats r of [] \<Rightarrow> (0, r) | f # fs \<Rightarrow> (f, r\<lparr>floats := fs\<rparr>))"

definition Intn :: "Rand \<Rightarrow> nat \<Rightarrow> nat \<times> Rand" where
  "Intn r n = (case intns r of [] \<Rightarrow> (0, r) | i # rest \<Rightarrow> (i mod n, r\<lparr>intns := rest\<rparr>))"

definition nextSymbolOrder :: "Rand \<Rightarrow> Symbol list \<times> Rand" where
  "nextSymbolOrder r =
     (case symbolOrders r of [] \<Rightarrow> ([], r) | ord # rest \<Rightarrow> (ord, r\<lparr>symbolOrders := rest\<rparr>))"

definition nextColumnOrder :: "Rand \<Rightarrow> int list \<times> Rand" where
  "nextColumnOrder r =
     (case columnOrders r of [] \<Rightarrow> ([], r) | ord # rest \<Rightarrow> (ord, r\<lparr>columnOrders := rest\<rparr>))"

definition nextPositionOrder :: "Rand \<Rightarrow> Position list \<times> Rand" where
  "nextPositionOrder r =
     (case positionOrders r of [] \<Rightarrow> ([], r)
      | ord # rest \<Rightarrow> (ord, r\<lparr>positionOrders := rest\<rparr>))"

text \<open>
  \<open>mapOrder ord keys\<close> is the order in which a \<open>range\<close> visits the keys of a map: the
  keys that \<open>ord\<close> names, in its order, then the keys it leaves out. Whatever \<open>ord\<close> is,
  the result is a permutation of the keys, and every permutation arises from some
  \<open>ord\<close>.
\<close>

definition mapOrder :: "'k list \<Rightarrow> 'k list \<Rightarrow> 'k list" where
  "mapOrder ord keys =
     filter (\<lambda>k. k \<in> set keys) (remdups ord) @ filter (\<lambda>k. k \<notin> set ord) (remdups keys)"

section \<open>Weighted draws and grid generation\<close>

fun pickSymbol :: "rat \<Rightarrow> rat \<Rightarrow> (Symbol \<times> rat) list \<Rightarrow> Symbol" where
  "pickSymbol roll currentWeight [] = SymbolPurpleOwl"
| "pickSymbol roll currentWeight ((symbol, weight) # rest) =
     (if roll \<le> currentWeight + weight then symbol
      else pickSymbol roll (currentWeight + weight) rest)"

definition rangeWeights :: "Symbol list \<Rightarrow> (Symbol \<times> rat) list \<Rightarrow> (Symbol \<times> rat) list" where
  "rangeWeights ord weights =
     map (\<lambda>k. (k, the (map_of weights k))) (mapOrder ord (map fst weights))"

definition WeightedRandomSymbolWithControl :: "Level \<Rightarrow> Rand \<Rightarrow> bool \<Rightarrow> Symbol \<times> Rand" where
  "WeightedRandomSymbolWithControl level r forbidFreeGame =
     (let weights0 = GetLevelSpecificWeights level;
          weights = (if forbidFreeGame
                     then filter (\<lambda>kv. fst kv \<noteq> SymbolFreeGame) weights0 else weights0);
          totalWeight = sum_list (map snd weights);
          (f, r1) = Float64 r;
          roll = f * totalWeight;
          (ord, r2) = nextSymbolOrder r1
      in (pickSymbol roll 0 (rangeWeights ord weights), r2))"

text \<open>
  \<open>GenerateGrid\<close>: the inner loop over \<open>x\<close> is \<open>GenerateGrid_row\<close>, the outer loop over
  \<open>y\<close> is \<open>GenerateGrid_rows\<close>; \<open>freeGamePlaced\<close> is threaded through both.
\<close>

fun GenerateGrid_row :: "Level \<Rightarrow> bool \<Rightarrow> nat \<Rightarrow> bool \<Rightarrow> Rand \<Rightarrow> string list \<times> bool \<times> Rand" where
  "GenerateGrid_row level forbidFreeGame 0 freeGamePlaced r = ([], freeGamePlaced, r)"
| "GenerateGrid_row level forbidFreeGame (Suc n) freeGamePlaced r =
     (let allowFreeGame = (\<not> freeGamePlaced \<and> \<not> forbidFreeGame);
          (symbol, r1) = WeightedRandomSymbolWithControl level r (\<not> allowFreeGame);
          placed1 = (if symbol = SymbolFreeGame then True else freeGamePlaced);
          (rest, placed2, r2) = GenerateGrid_row level forbidFreeGame n placed1 r1
      in (symbol # rest, placed2, r2))"

fun GenerateGrid_rows :: "Level \<Rightarrow> bool \<Rightarrow> nat \<Rightarrow> nat \<Rightarrow> bool \<Rightarrow> Rand \<Rightarrow> Grid \<times> bool \<times> Rand" where
  "GenerateGrid_rows level forbidFreeGame gridSize 0 freeGamePlaced r = ([], freeGamePlaced, r)"
| "GenerateGrid_rows level forbidFreeGame gridSize (Suc n) freeGamePlaced r =
     (let (row, placed1, r1) = GenerateGrid_row level forbidFreeGame gridSize freeGamePlaced r;
          (rest, placed2, r2) = GenerateGrid_rows level forbidFreeGame gridSize n placed1 r1
      in (row # rest, placed2, r2))"

definition GenerateGrid :: "Level \<Rightarrow> Rand \<Rightarrow> bool \<Rightarrow> Grid \<times> Rand" where
  "GenerateGrid level r forbidFreeGame =
     (let gridSize = nat (GetGridSize level);
          (grid, placed, r1) = GenerateGrid_rows level forbidFreeGame gridSize gridSize False r
      in (grid, r1))"

definition hasFreeGameSymbol :: "Grid \<Rightarrow> bool" where
  "hasFreeGameSymbol grid \<longleftrightarrow> SymbolFreeGame \<in> set (concat grid)"

section \<open>Scanning the grid\<close>

text \<open>
  The double loop \<open>for y := 0; y < n; y++ { for x := 0; x < n; x++ { ... } }\<close> visits
  \<open>rowMajor n\<close>. \<open>collectCells\<close> reads \<open>grid[y][x]\<close> at each position in turn.
\<close>

definition rowMajor :: "nat \<Rightarrow> Position list" where
  "rowMajor n = concat (map (\<lambda>y. map (\<lambda>x. \<lparr>X = int x, Y = int y\<rparr>) [0..<n]) [0..<n])"

fun collectCells :: "Grid \<Rightarrow> Position list \<Rightarrow> (Position \<times> string) list option" where
  "collectCells grid [] = Some []"
| "collectCells grid (p # ps) =
     (case cellAt grid (Y p) (X p) of
        None \<Rightarrow> None
      | Some c \<Rightarrow>
          (case collectCells grid ps of
             None \<Rightarrow> None
           | Some rest \<Rightarrow> Some ((p, c) # rest)))"

definition FindStageClearedSymbols :: "Grid \<Rightarrow> Level \<Rightarrow> StageClearedSymbol list option" where
  "FindStageClearedSymbols grid level =
     (let expectedSymbol = GetStageClearedSymbol level in
      case collectCells grid (rowMajor (length grid)) of
        None \<Rightarrow> None
      | Some cells \<Rightarrow>
          Some (map (\<lambda>pc. \<lparr>sc_Symbol = expectedSymbol, sc_Position = fst pc\<rparr>)
                  (filter (\<lambda>pc. snd pc = expectedSymbol) cells)))"

definition CountFreeGameSymbols :: "Grid \<Rightarrow> int option" where
  "CountFreeGameSymbols grid =
     (case collectCells grid (rowMajor (length grid)) of
        None \<Rightarrow> None
      | Some cells \<Rightarrow> Some (int (length (filter (\<lambda>pc. snd pc = SymbolFreeGame) cells))))"

section \<open>Connection detection\<close>

text \<open>
  \<open>findConnectedPositions\<close> is a loop over an explicit stack. The Go slice pops and
  pushes at its end; the list below keeps the top of the stack at its head, so the four
  neighbours appear in the reverse of the order in which the source appends them. The
  loop ends because each round either shortens the stack or marks one more cell of
  \<open>visited\<close>.
\<close>

definition unvisitedCount :: "bool list list \<Rightarrow> nat" where
  "unvisitedCount visited = sum_list (map (\<lambda>row. length (filter Not row)) visited)"

lemma filter_Not_update_less:
  "i < length xs \<Longrightarrow> \<not> xs ! i \<Longrightarrow>
     length (filter Not (xs[i := True])) < length (filter Not xs)"
proof (induction xs arbitrary: i)
  case Nil
  then show ?case by simp
next
  case (Cons a xs)
  then show ?case by (cases i) auto
qed

lemma sum_list_update_less:
  fixes ns :: "nat list"
  shows "j < length ns \<Longrightarrow> m < ns ! j \<Longrightarrow> sum_list (ns[j := m]) < sum_list ns"
proof (induction ns arbitrary: j)
  case Nil
  then show ?case by simp
next
  case (Cons a ns)
  then show ?case by (cases j) auto
qed

lemma unvisitedCount_setCell:
  assumes "cellAt visited y x = Some False" and "setCell visited y x True = Some visited'"
  shows "unvisitedCount visited' < unvisitedCount visited"
proof -
  from assms(1) have y: "nat y < length visited" and x: "nat x < length (visited ! nat y)"
    and f: "\<not> visited ! nat y ! nat x"
    by (auto simp: cellAt_def inRange_def split: if_splits)
  from assms(2) have v': "visited' = visited[nat y := (visited ! nat y)[nat x := True]]"
    by (auto simp: setCell_def split: if_splits)
  have "length (filter Not ((visited ! nat y)[nat x := True])) < length (filter Not (visited ! nat y))"
    using filter_Not_update_less [OF x f] .
  then have "sum_list ((map (\<lambda>row. length (filter Not row)) visited)[nat y := length (filter Not ((visited ! nat y)[nat x := True]))])
           < sum_list (map (\<lambda>row. length (filter Not row)) visited)"
    using y by (intro sum_list_update_less) auto
  then show ?thesis by (simp add: unvisitedCount_def v' map_update)
qed

function findConnectedPositions_loop ::
  "Grid \<Rightarrow> Symbol \<Rightarrow> Position list \<Rightarrow> bool list list \<Rightarrow> Position list
     \<Rightarrow> (Position list \<times> bool list list) option" where
  "findConnectedPositions_loop grid symbol [] visited positions = Some (positions, visited)"
| "findConnectedPositions_loop grid symbol (current # stack) visited positions =
     (let gridSize = int (length grid) in
      if X current < 0 \<or> X current \<ge> gridSize \<or> Y current < 0 \<or> Y current \<ge> gridSize
      then findConnectedPositions_loop grid symbol stack visited positions
      else
        (case cellAt visited (Y current) (X current) of
           None \<Rightarrow> None
         | Some True \<Rightarrow> findConnectedPositions_loop grid symbol stack visited positions
         | Some False \<Rightarrow>
             (case cellAt grid (Y current) (X current) of
                None \<Rightarrow> None
              | Some c \<Rightarrow>
                  if c \<noteq> symbol \<or> \<not> IsRegularBirdSymbol c
                  then findConnectedPositions_loop grid symbol stack visited positions
                  else
                    (case setCell visited (Y current) (X current) True of
                       None \<Rightarrow> None
                     | Some visited' \<Rightarrow>
                         findConnectedPositions_loop grid symbol
                           (\<lparr>X = X current, Y = Y current - 1\<rparr> #
                            \<lparr>X = X current, Y = Y current + 1\<rparr> #
                            \<lparr>X = X current - 1, Y = Y current\<rparr> #
                            \<lparr>X = X current + 1, Y = Y current\<rparr> # stack)
                           visited' (positions @ [current])))))"
  by pat_completeness auto
termination
  by (relation "measures [\<lambda>(grid, symbol, stack, visited, positions). unvisitedCount visited,
                          \<lambda>(grid, symbol, stack, visited, positions). length stack]")
     (auto simp: unvisitedCount_setCell)

definition findConnectedPositions ::
  "Grid \<Rightarrow> int \<Rightarrow> int \<Rightarrow> Symbol \<Rightarrow> bool list list \<Rightarrow> (Position list \<times> bool list list) option" where
  "findConnectedPositions grid startX startY symbol visited =
     findConnectedPositions_loop grid symbol [\<lparr>X = startX, Y = startY\<rparr>] visited []"

fun FindRegularConnections_scan ::
  "Grid \<Rightarrow> Level \<Rightarrow> Position list \<Rightarrow> bool list list \<Rightarrow> Connection list \<Rightarrow> Connection list option" where
  "FindRegularConnections_scan grid level [] visited connections = Some connections"
| "FindRegularConnections_scan grid level (p # ps) visited connections =
     (case cellAt visited (Y p) (X p) of
        None \<Rightarrow> None
      | Some True \<Rightarrow> FindRegularConnections_scan grid level ps visited connections
      | Some False \<Rightarrow>
          (case cellAt grid (Y p) (X p) of
             None \<Rightarrow> None
           | Some symbol \<Rightarrow>
               if \<not> IsRegularBirdSymbol symbol
               then FindRegularConnections_scan grid level ps visited connections
               else
                 (case findConnectedPositions grid (X p) (Y p) symbol visited of
                    None \<Rightarrow> None
                  | Some (positions, visited') \<Rightarrow>
                      if int (length positions) \<ge> GetMinConnection level
                      then FindRegularConnections_scan grid level ps visited'
                             (connections @
                              [\<lparr>Symbol = symbol, Positions = positions,
                                Count = int (length positions),
                                Payout = calculatePayout symbol (int (length positions)) level 1\<rparr>])
                      else FindRegularConnections_scan grid level ps visited' connections)))"

definition FindRegularConnections :: "Grid \<Rightarrow> Level \<Rightarrow> Connection list option" where
  "FindRegularConnections grid level =
     (let gridSize = length grid;
          visited = replicate gridSize (replicate gridSize False)
      in FindRegularConnections_scan grid level (rowMajor gridSize) visited [])"

section \<open>Game state and the winnings of a step\<close>

text \<open>
  \<open>GameState\<close> is the state the client sends with every request and receives back.
  The nested structs \<open>Bet\<close> and \<open>FreeSpins\<close> are flattened into prefixed fields.
\<close>

record GameState =
  Bet_Amount :: rat
  Bet_Multiplier :: int
  CurrentLevel :: Level
  GridSize :: int
  Grid :: Grid
  StageProgress :: int
  GameMode :: string
  FreeSpins_Remaining :: int
  FreeSpins_TotalAwarded :: int
  FreeSpins_Multiplier :: rat
  TotalWin :: rat
  Cascading :: bool
  LastConnections :: "Connection list"
  CascadeCount :: int
  StageClearedSymbols :: "StageClearedSymbol list"

text \<open>
  The block \<open>// Calculate total winnings\<close> is the same in the three handlers: each
  connection gets its payout at the bet multiplier of the state, the payouts are summed,
  the sum is scaled by the free-spin multiplier in free-spins mode, and the result is
  rounded.
\<close>

definition payConnections :: "GameState \<Rightarrow> Connection list \<Rightarrow> Connection list \<times> rat" where
  "payConnections gs connections =
     (let paid = map (\<lambda>c. c\<lparr>Payout := calculatePayout (Symbol c) (Count c) (CurrentLevel gs)
                                        (Bet_Multiplier gs)\<rparr>) connections;
          totalWinnings = sum_list (map Payout paid);
          scaled = (if GameMode gs = ''freeSpins''
                    then totalWinnings * FreeSpins_Multiplier gs else totalWinnings)
      in (paid, round_go scaled))"




section \<open>Generation with and without a connection\<close>

text \<open>
  \<open>GenerateGridWithWin\<close> and \<open>GenerateLossGrid\<close> try \<open>GenerateGrid\<close> up to 100 times;
  the loop returns the first grid that has (has no) connection, or none.
\<close>

definition birdSymbols :: "Symbol list" where
  "birdSymbols =
     [SymbolPurpleOwl, SymbolGreenOwl, SymbolYellowOwl, SymbolBlueOwl, SymbolRedOwl]"

fun ForceWinGrid_line :: "Grid \<Rightarrow> int \<Rightarrow> int \<Rightarrow> Symbol \<Rightarrow> int list \<Rightarrow> Grid option" where
  "ForceWinGrid_line grid y startX targetSymbol [] = Some grid"
| "ForceWinGrid_line grid y startX targetSymbol (i # rest) =
     (case setCell grid y (startX + i) targetSymbol of
        None \<Rightarrow> None
      | Some g \<Rightarrow> ForceWinGrid_line g y startX targetSymbol rest)"

definition ForceWinGrid :: "Level \<Rightarrow> Rand \<Rightarrow> bool \<Rightarrow> (Grid \<times> Rand) option" where
  "ForceWinGrid level r forbidFreeGame =
     (let gridSize = GetGridSize level;
          (grid, r1) = GenerateGrid level r forbidFreeGame;
          minConnection = GetMinConnection level;
          (t, r2) = Intn r1 (length birdSymbols);
          targetSymbol = birdSymbols ! t;
          (startX, r3) = Intn r2 (nat (gridSize - minConnection + 1));
          (y, r4) = Intn r3 (nat gridSize)
      in case ForceWinGrid_line grid (int y) (int startX) targetSymbol [0..minConnection - 1] of
           None \<Rightarrow> None
         | Some g \<Rightarrow> Some (g, r4))"

fun GenerateGridWithWin_loop :: "nat \<Rightarrow> Level \<Rightarrow> Rand \<Rightarrow> bool \<Rightarrow> (Grid option \<times> Rand) option" where
  "GenerateGridWithWin_loop 0 level r forbidFreeGame = Some (None, r)"
| "GenerateGridWithWin_loop (Suc n) level r forbidFreeGame =
     (let (grid, r1) = GenerateGrid level r forbidFreeGame in
      case FindRegularConnections grid level of
        None \<Rightarrow> None
      | Some connections \<Rightarrow>
          if length connections > 0 then Some (Some grid, r1)
          else GenerateGridWithWin_loop n level r1 forbidFreeGame)"

definition GenerateGridWithWin :: "Level \<Rightarrow> Rand \<Rightarrow> bool \<Rightarrow> (Grid \<times> Rand) option" where
  "GenerateGridWithWin level r forbidFreeGame =
     (case GenerateGridWithWin_loop 100 level r forbidFreeGame of
        None \<Rightarrow> None
      | Some (Some grid, r1) \<Rightarrow> Some (grid, r1)
      | Some (None, r1) \<Rightarrow> ForceWinGrid level r1 forbidFreeGame)"

text \<open>
  \<open>ForceLossGrid\<close> fills the grid cell by cell with a bird that differs from the left
  and the upper neighbour. \<open>row\<close> is the part of the current row already filled,
  \<open>previousRow\<close> the row before it (empty for the first row).
\<close>

fun ForceLossGrid_row :: "string list \<Rightarrow> string list \<Rightarrow> nat \<Rightarrow> Rand \<Rightarrow> string list \<times> Rand" where
  "ForceLossGrid_row previousRow row 0 r = (row, r)"
| "ForceLossGrid_row previousRow row (Suc n) r =
     (let x = length row;
          available1 =
            (if x > 0 \<and> row ! (x - 1) \<noteq> '''' \<and> IsRegularBirdSymbol (row ! (x - 1))
             then remove1 (row ! (x - 1)) birdSymbols else birdSymbols);
          available2 =
            (if previousRow \<noteq> [] \<and> previousRow ! x \<noteq> '''' \<and> IsRegularBirdSymbol (previousRow ! x)
             then remove1 (previousRow ! x) available1 else available1);
          (symbol, r1) =
            (if length available2 > 0
             then (let (i, r') = Intn r (length available2) in (available2 ! i, r'))
             else (let (i, r') = Intn r (length birdSymbols) in (birdSymbols ! i, r')))
      in ForceLossGrid_row previousRow (row @ [symbol]) n r1)"

fun ForceLossGrid_rows :: "nat \<Rightarrow> string list \<Rightarrow> nat \<Rightarrow> Rand \<Rightarrow> Grid \<times> Rand" where
  "ForceLossGrid_rows gridSize previousRow 0 r = ([], r)"
| "ForceLossGrid_rows gridSize previousRow (Suc n) r =
     (let (row, r1) = ForceLossGrid_row previousRow [] gridSize r;
          (rest, r2) = ForceLossGrid_rows gridSize row n r1
      in (row # rest, r2))"

fun ForceLossGrid_scrub :: "string list \<Rightarrow> Rand \<Rightarrow> string list \<times> Rand" where
  "ForceLossGrid_scrub [] r = ([], r)"
| "ForceLossGrid_scrub (c # cs) r =
     (if c = SymbolFreeGame
      then (let (i, r1) = Intn r (length birdSymbols);
                (rest, r2) = ForceLossGrid_scrub cs r1
            in (birdSymbols ! i # rest, r2))
      else (let (rest, r2) = ForceLossGrid_scrub cs r in (c # rest, r2)))"

fun ForceLossGrid_scrubRows :: "Grid \<Rightarrow> Rand \<Rightarrow> Grid \<times> Rand" where
  "ForceLossGrid_scrubRows [] r = ([], r)"
| "ForceLossGrid_scrubRows (row # rows) r =
     (let (row', r1) = ForceLossGrid_scrub row r;
          (rest, r2) = ForceLossGrid_scrubRows rows r1
      in (row' # rest, r2))"

definition ForceLossGrid :: "Level \<Rightarrow> Rand \<Rightarrow> bool \<Rightarrow> Grid \<times> Rand" where
  "ForceLossGrid level r forbidFreeGame =
     (let gridSize = nat (GetGridSize level);
          (grid, r1) = ForceLossGrid_rows gridSize [] gridSize r
      in if forbidFreeGame then ForceLossGrid_scrubRows grid r1 else (grid, r1))"

fun GenerateLossGrid_loop :: "nat \<Rightarrow> Level \<Rightarrow> Rand \<Rightarrow> bool \<Rightarrow> (Grid option \<times> Rand) option" where
  "GenerateLossGrid_loop 0 level r forbidFreeGame = Some (None, r)"
| "GenerateLossGrid_loop (Suc n) level r forbidFreeGame =
     (let (grid, r1) = GenerateGrid level r forbidFreeGame in
      case FindRegularConnections grid level of
        None \<Rightarrow> None
      | Some connections \<Rightarrow>
          if length connections = 0 then Some (Some grid, r1)
          else GenerateLossGrid_loop n level r1 forbidFreeGame)"

definition GenerateLossGrid :: "Level \<Rightarrow> Rand \<Rightarrow> bool \<Rightarrow> (Grid \<times> Rand) option" where
  "GenerateLossGrid level r forbidFreeGame =
     (case GenerateLossGrid_loop 100 level r forbidFreeGame of
        None \<Rightarrow> None
      | Some (Some grid, r1) \<Rightarrow> Some (grid, r1)
      | Some (None, r1) \<Rightarrow> Some (ForceLossGrid level r1 forbidFreeGame))"

section \<open>Surgical removal and gravity\<close>

text \<open>
  The Go functions change the grid they are given in place and the caller goes on with
  the same slice. The model returns the changed grid. No two grids of the program share
  rows (every copy is a deep copy), so nothing else sees the change.
\<close>

fun RemoveStageClearedSymbolsSurgical :: "Grid \<Rightarrow> StageClearedSymbol list \<Rightarrow> Grid option" where
  "RemoveStageClearedSymbolsSurgical grid [] = Some grid"
| "RemoveStageClearedSymbolsSurgical grid (stageSymbol # rest) =
     (let pos = sc_Position stageSymbol in
      if X pos \<ge> 0 \<and> X pos < int (length grid) \<and> Y pos \<ge> 0 \<and> Y pos < int (length grid)
      then (case setCell grid (Y pos) (X pos) '''' of
              None \<Rightarrow> None
            | Some g \<Rightarrow> RemoveStageClearedSymbolsSurgical g rest)
      else RemoveStageClearedSymbolsSurgical grid rest)"

fun RemoveConnectionsSurgical_positions ::
  "Grid \<Rightarrow> Position list \<Rightarrow> Position list \<Rightarrow> (Grid \<times> Position list) option" where
  "RemoveConnectionsSurgical_positions grid [] affectedPositions = Some (grid, affectedPositions)"
| "RemoveConnectionsSurgical_positions grid (pos # rest) affectedPositions =
     (if X pos \<ge> 0 \<and> X pos < int (length grid) \<and> Y pos \<ge> 0 \<and> Y pos < int (length grid)
      then (case setCell grid (Y pos) (X pos) '''' of
              None \<Rightarrow> None
            | Some g \<Rightarrow> RemoveConnectionsSurgical_positions g rest (affectedPositions @ [pos]))
      else RemoveConnectionsSurgical_positions grid rest affectedPositions)"

fun RemoveConnectionsSurgical_loop ::
  "Grid \<Rightarrow> Connection list \<Rightarrow> Position list \<Rightarrow> (Grid \<times> Position list) option" where
  "RemoveConnectionsSurgical_loop grid [] affectedPositions = Some (grid, affectedPositions)"
| "RemoveConnectionsSurgical_loop grid (connection # rest) affectedPositions =
     (case RemoveConnectionsSurgical_positions grid (Positions connection) affectedPositions of
        None \<Rightarrow> None
      | Some (g, affected) \<Rightarrow> RemoveConnectionsSurgical_loop g rest affected)"

definition RemoveConnectionsSurgical :: "Grid \<Rightarrow> Connection list \<Rightarrow> (Grid \<times> Position list) option" where
  "RemoveConnectionsSurgical grid connections =
     RemoveConnectionsSurgical_loop grid connections []"

text \<open>
  Gravity in one column \<open>x\<close>. \<open>compactColumn grid x n writePos\<close> is the loop
  \<open>for y := gridSize - 1; y >= 0; y--\<close> with \<open>n\<close> rows still to visit (the next one is
  row \<open>n - 1\<close>); it returns the grid and the final \<open>writePos\<close>. \<open>fillColumn\<close> is the loop
  \<open>for y := 0; y <= writePos; y++\<close> over the rows \<open>[0..writePos]\<close>.
\<close>

fun compactColumn :: "Grid \<Rightarrow> int \<Rightarrow> nat \<Rightarrow> int \<Rightarrow> (Grid \<times> int) option" where
  "compactColumn grid x 0 writePos = Some (grid, writePos)"
| "compactColumn grid x (Suc y) writePos =
     (case cellAt grid (int y) x of
        None \<Rightarrow> None
      | Some c \<Rightarrow>
          if c \<noteq> '''' then
            (if int y \<noteq> writePos then
               (case setCell grid writePos x c of
                  None \<Rightarrow> None
                | Some g1 \<Rightarrow>
                    (case setCell g1 (int y) x '''' of
                       None \<Rightarrow> None
                     | Some g2 \<Rightarrow> compactColumn g2 x y (writePos - 1)))
             else compactColumn grid x y (writePos - 1))
          else compactColumn grid x y writePos)"

fun fillColumn ::
  "Grid \<Rightarrow> Level \<Rightarrow> bool \<Rightarrow> int \<Rightarrow> int list \<Rightarrow> Rand \<Rightarrow> Position list
     \<Rightarrow> (Grid \<times> Rand \<times> Position list) option" where
  "fillColumn grid level forbidFreeGame x [] r newPositions = Some (grid, r, newPositions)"
| "fillColumn grid level forbidFreeGame x (y # ys) r newPositions =
     (let allowFreeGame = (\<not> hasFreeGameSymbol grid \<and> \<not> forbidFreeGame);
          (symbol, r1) = WeightedRandomSymbolWithControl level r (\<not> allowFreeGame)
      in case setCell grid y x symbol of
           None \<Rightarrow> None
         | Some g \<Rightarrow>
             fillColumn g level forbidFreeGame x ys r1 (newPositions @ [\<lparr>X = x, Y = y\<rparr>]))"

fun gravityColumns ::
  "nat \<Rightarrow> Grid \<Rightarrow> Level \<Rightarrow> bool \<Rightarrow> int list \<Rightarrow> Rand \<Rightarrow> Position list
     \<Rightarrow> (Grid \<times> Rand \<times> Position list) option" where
  "gravityColumns gridSize grid level forbidFreeGame [] r newPositions =
     Some (grid, r, newPositions)"
| "gravityColumns gridSize grid level forbidFreeGame (x # xs) r newPositions =
     (if x \<ge> 0 \<and> x < int gridSize then
        (case compactColumn grid x gridSize (int gridSize - 1) of
           None \<Rightarrow> None
         | Some (g1, writePos) \<Rightarrow>
             (case fillColumn g1 level forbidFreeGame x [0..writePos] r newPositions of
                None \<Rightarrow> None
              | Some (g2, r1, newPositions1) \<Rightarrow>
                  gravityColumns gridSize g2 level forbidFreeGame xs r1 newPositions1))
      else gravityColumns gridSize grid level forbidFreeGame xs r newPositions)"

text \<open>
  \<open>affectedColumns\<close> is a Go map used as a set; its keys are the distinct column numbers
  and the \<open>range\<close> over it visits them in an order of the runtime's choosing.
\<close>

definition ApplyGravitySurgical ::
  "Grid \<Rightarrow> StageClearedSymbol list \<Rightarrow> Level \<Rightarrow> Rand \<Rightarrow> bool \<Rightarrow> (Grid \<times> Position list \<times> Rand) option" where
  "ApplyGravitySurgical grid stageClearedSymbols level r forbidFreeGame =
     (let gridSize = length grid;
          affectedColumns = remdups (map (\<lambda>s. X (sc_Position s)) stageClearedSymbols);
          (ord, r1) = nextColumnOrder r
      in case gravityColumns gridSize grid level forbidFreeGame
                (mapOrder ord affectedColumns) r1 [] of
           None \<Rightarrow> None
         | Some (g, r2, newPositions) \<Rightarrow> Some (g, newPositions, r2))"

definition ApplyGravitySurgicalForCascade ::
  "Grid \<Rightarrow> Position list \<Rightarrow> Level \<Rightarrow> Rand \<Rightarrow> bool \<Rightarrow> (Grid \<times> Position list \<times> Rand) option" where
  "ApplyGravitySurgicalForCascade grid affectedPositions level r forbidFreeGame =
     (let gridSize = length grid;
          affectedColumns = remdups (map X affectedPositions);
          (ord, r1) = nextColumnOrder r
      in case gravityColumns gridSize grid level forbidFreeGame
                (mapOrder ord affectedColumns) r1 [] of
           None \<Rightarrow> None
         | Some (g, r2, newPositions) \<Rightarrow> Some (g, newPositions, r2))"

section \<open>Surgical loss\<close>

text \<open>
  \<open>allowed\<close> is a Go map keyed by the text \<open>"x,y"\<close> of a position; printing and
  scanning two integers is a bijection, so the keys are modelled by the positions
  themselves. One attempt (\<open>surgicalTry\<close>) ranges over the keys in the order the runtime
  picks, redraws the cell of each key that lies in the grid, and stops at the first
  redraw after which no connection is left, or after \<open>modificationsCount\<close> redraws. The
  two Go functions differ in that count (3 and 4) and in their log lines only.
\<close>

fun surgicalTry ::
  "Level \<Rightarrow> bool \<Rightarrow> int \<Rightarrow> Position list \<Rightarrow> Grid \<Rightarrow> int \<Rightarrow> Rand \<Rightarrow> (Grid option \<times> Rand) option" where
  "surgicalTry level forbidFreeGame modificationsCount [] testGrid modified r = Some (None, r)"
| "surgicalTry level forbidFreeGame modificationsCount (p # ps) testGrid modified r =
     (if modified \<ge> modificationsCount then Some (None, r)
      else if X p \<ge> 0 \<and> X p < int (length testGrid) \<and> Y p \<ge> 0 \<and>
              Y p < int (length (testGrid ! 0))
      then
        (case cellAt testGrid (Y p) (X p) of
           None \<Rightarrow> None
         | Some originalSymbol \<Rightarrow>
             (let (newSymbol, r1) = WeightedRandomSymbolWithControl level r forbidFreeGame in
              case setCell testGrid (Y p) (X p) newSymbol of
                None \<Rightarrow> None
              | Some tg \<Rightarrow>
                  (case FindRegularConnections tg level of
                     None \<Rightarrow> None
                   | Some testConnections \<Rightarrow>
                       if length testConnections = 0 then Some (Some tg, r1)
                       else surgicalTry level forbidFreeGame modificationsCount ps tg
                              (modified + 1) r1)))
      else surgicalTry level forbidFreeGame modificationsCount ps testGrid modified r)"

fun surgicalAttempts ::
  "nat \<Rightarrow> Level \<Rightarrow> bool \<Rightarrow> int \<Rightarrow> Position list \<Rightarrow> Grid \<Rightarrow> Rand \<Rightarrow> (Grid option \<times> Rand) option" where
  "surgicalAttempts 0 level forbidFreeGame modificationsCount allowed grid r = Some (None, r)"
| "surgicalAttempts (Suc n) level forbidFreeGame modificationsCount allowed grid r =
     (let (ord, r1) = nextPositionOrder r in
      case surgicalTry level forbidFreeGame modificationsCount (mapOrder ord allowed) grid 0 r1 of
        None \<Rightarrow> None
      | Some (Some tg, r2) \<Rightarrow> Some (Some tg, r2)
      | Some (None, r2) \<Rightarrow>
          surgicalAttempts n level forbidFreeGame modificationsCount allowed grid r2)"

definition ApplySurgicalLoss ::
  "GameState \<Rightarrow> Grid \<Rightarrow> StageClearedSymbol list \<Rightarrow> Level \<Rightarrow> Rand \<Rightarrow> Position list
     \<Rightarrow> (bool \<times> GameState \<times> Rand) option" where
  "ApplySurgicalLoss gameState originalGrid stageClearedSymbols level r newPositions =
     (let allowed = remdups newPositions in
      case FindRegularConnections (Grid gameState) level of
        None \<Rightarrow> None
      | Some connections \<Rightarrow>
          if length connections = 0 then Some (True, gameState, r)
          else
            (case surgicalAttempts 50 level (GameMode gameState = ''freeSpins'')
                    (min 3 (int (length allowed))) allowed (Grid gameState) r of
               None \<Rightarrow> None
             | Some (Some testGrid, r1) \<Rightarrow> Some (True, gameState\<lparr>Grid := testGrid\<rparr>, r1)
             | Some (None, r1) \<Rightarrow> Some (False, gameState, r1)))"

definition ApplySurgicalLossForCascade ::
  "GameState \<Rightarrow> Grid \<Rightarrow> Position list \<Rightarrow> Level \<Rightarrow> Rand \<Rightarrow> (bool \<times> GameState \<times> Rand) option" where
  "ApplySurgicalLossForCascade gameState originalGrid newPositions level r =
     (let allowed = remdups newPositions in
      case FindRegularConnections (Grid gameState) level of
        None \<Rightarrow> None
      | Some connections \<Rightarrow>
          if length connections = 0 then Some (True, gameState, r)
          else
            (case surgicalAttempts 50 level (GameMode gameState = ''freeSpins'')
                    (min 4 (int (length allowed))) allowed (Grid gameState) r of
               None \<Rightarrow> None
             | Some (Some testGrid, r1) \<Rightarrow> Some (True, gameState\<lparr>Grid := testGrid\<rparr>, r1)
             | Some (None, r1) \<Rightarrow> Some (False, gameState, r1)))"

section \<open>Requests, replies and the two external services\<close>

text \<open>
  The three request types of the source have the same fields. A handler answers with an
  error status and message (\<open>Failed\<close>), with its JSON response (\<open>Succeeded\<close>), or it
  panics on an index out of range (\<open>Panicked\<close>). A request whose body does not parse is
  answered before any of the code below runs and is not modelled.

  The settings service and the RNG service are inputs: \<open>GetRTP\<close> and \<open>GetOutcome\<close>
  return \<open>None\<close> when the call fails. \<open>payoutMultiplier\<close> is a float division in the
  source; where the bet amount is zero its result is not a number, here \<open>None\<close>.

  Go's \<open>int\<close> has 64 bits: the three places where a handler adds to or subtracts from a
  counter that the client supplied wrap around (\<open>wrap64\<close>).
\<close>

record Request =
  req_GameState :: GameState
  ClientID :: string
  GameID :: string
  PlayerID :: string
  BetID :: string

datatype 'a Reply = Panicked | Failed nat string | Succeeded 'a

record Services =
  GetRTP :: "string \<Rightarrow> string \<Rightarrow> string \<Rightarrow> rat option"
  GetOutcome :: "string \<Rightarrow> string \<Rightarrow> string \<Rightarrow> string \<Rightarrow> rat \<Rightarrow> rat option \<Rightarrow> rat \<Rightarrow> string option"

record SpinResponse =
  sr_Status :: string
  sr_Message :: string
  sr_GameState :: GameState
  sr_StageClearedSymbols :: "StageClearedSymbol list"
  sr_HasStageCleared :: bool
  sr_TotalCost :: rat

record ProcessStageClearedResponse =
  pr_Status :: string
  pr_Message :: string
  pr_GameState :: GameState
  pr_StageClearedCount :: int
  pr_LevelAdvanced :: bool
  pr_OldLevel :: Level
  pr_NewLevel :: Level
  pr_Connections :: "Connection list"
  pr_TotalCost :: rat

record CascadeResponse =
  cr_Status :: string
  cr_Message :: string
  cr_GameState :: GameState
  cr_Connections :: "Connection list"
  cr_StageClearedSymbols :: "StageClearedSymbol list"
  cr_HasStageCleared :: bool
  cr_TotalCost :: rat

definition wrap64 :: "int \<Rightarrow> int" where
  "wrap64 i = (i + 2 ^ 63) mod 2 ^ 64 - 2 ^ 63"

definition isValidBetAmount :: "rat \<Rightarrow> bool" where
  "isValidBetAmount amount \<longleftrightarrow> amount \<in> set [1/10, 2/10, 3/10, 5/10, 1]"

definition validateRequest :: "string \<Rightarrow> string \<Rightarrow> string \<Rightarrow> string \<Rightarrow> rat \<Rightarrow> string option" where
  "validateRequest clientID gameID playerID betID betAmount =
     (if clientID = '''' then Some ''client_id is required''
      else if gameID = '''' then Some ''game_id is required''
      else if playerID = '''' then Some ''player_id is required''
      else if betID = '''' then Some ''bet_id is required''
      else if \<not> isValidBetAmount betAmount
        then Some ''invalid bet amount, allowed values are 0.1, 0.2, 0.3, 0.5, 1.0''
      else None)"

definition ValidateGridDimensions :: "Grid \<Rightarrow> Level \<Rightarrow> bool" where
  "ValidateGridDimensions grid level \<longleftrightarrow>
     int (length grid) = GetGridSize level \<and>
     list_all (\<lambda>row. int (length row) = GetGridSize level) grid"

definition AdvanceLevel :: "Level \<Rightarrow> Level" where
  "AdvanceLevel currentLevel =
     (if currentLevel = Level1 then Level2
      else if currentLevel = Level2 then Level3
      else if currentLevel = Level3 then Level1
      else Level1)"

definition InitializeGameState :: GameState where
  "InitializeGameState =
     \<lparr>Bet_Amount = 0, Bet_Multiplier = 0, CurrentLevel = Level1, GridSize = 4, Grid = [],
      StageProgress = 0, GameMode = ''base'', FreeSpins_Remaining = 0,
      FreeSpins_TotalAwarded = 0, FreeSpins_Multiplier = 1, TotalWin = 0,
      Cascading = False, LastConnections = [], CascadeCount = 0, StageClearedSymbols = []\<rparr>"

definition UpdateGameStateForLevel :: "GameState \<Rightarrow> Level \<Rightarrow> GameState" where
  "UpdateGameStateForLevel gameState newLevel =
     gameState\<lparr>CurrentLevel := newLevel, GridSize := GetGridSize newLevel, StageProgress := 0\<rparr>"

definition GetRandomFreeSpinMultiplier :: "Rand \<Rightarrow> rat \<times> Rand" where
  "GetRandomFreeSpinMultiplier r =
     (let multipliers = [1, 3/2, 2, 5/2, 3, 7/2, 4, 9/2, 5];
          (i, r1) = Intn r (length multipliers)
      in (multipliers ! i, r1))"

text \<open>
  The block \<open>GetRTP\<close>, then \<open>GetOutcome\<close> is the same in the three handlers: it yields
  the error reply of the first call that fails, or the preferred outcome.
\<close>

definition askOutcome :: "Services \<Rightarrow> Request \<Rightarrow> GameState \<Rightarrow> rat \<Rightarrow> (nat \<times> string) + string" where
  "askOutcome sv req gs totalWinnings =
     (case GetRTP sv (ClientID req) (GameID req) (PlayerID req) of
        None \<Rightarrow> Inl (500, ''Failed to retrieve game settings'')
      | Some rtp \<Rightarrow>
          (let payoutMultiplier =
                 (if Bet_Amount gs = 0 then None else Some (totalWinnings / Bet_Amount gs)) in
           case GetOutcome sv (ClientID req) (GameID req) (PlayerID req) (BetID req) rtp
                  payoutMultiplier (Bet_Amount gs) of
             None \<Rightarrow> Inl (500, ''Failed to determine outcome'')
           | Some prefOutcome \<Rightarrow> Inr prefOutcome))"

section \<open>The spin handler\<close>

text \<open>\<open>SpinHandler_prepare\<close>: from \<open>// Initialize game state if needed\<close> to
  \<open>// Set bet multiplier\<close>.\<close>

definition SpinHandler_prepare :: "GameState \<Rightarrow> GameState" where
  "SpinHandler_prepare gs0 =
     (let gs1 = (if CurrentLevel gs0 = 0 then InitializeGameState else gs0);
          gs2 = (if GameMode gs1 = '''' then gs1\<lparr>GameMode := ''base''\<rparr> else gs1);
          expectedGridSize = GetGridSize (CurrentLevel gs2);
          gs3 = (if GridSize gs2 \<noteq> expectedGridSize
                 then gs2\<lparr>GridSize := expectedGridSize\<rparr> else gs2)
      in gs3\<lparr>Bet_Multiplier := lookupMultiplier (Bet_Amount gs3)\<rparr>)"

text \<open>\<open>SpinHandler_freeSpins\<close>: \<open>// Check for free game symbols\<close> and
  \<open>// Update free spins count\<close>.\<close>

definition SpinHandler_freeSpins :: "GameState \<Rightarrow> int \<Rightarrow> Rand \<Rightarrow> GameState \<times> Rand" where
  "SpinHandler_freeSpins gs freeGameCount r =
     (let (gs1, r1) =
            (if GameMode gs = ''base'' \<and> freeGameCount > 0
             then (let (m, r') = GetRandomFreeSpinMultiplier r in
                   (gs\<lparr>GameMode := ''freeSpins'', FreeSpins_Remaining := FreeSpinsAwarded,
                       FreeSpins_TotalAwarded := FreeSpinsAwarded, FreeSpins_Multiplier := m\<rparr>, r'))
             else (gs, r));
          gs2 =
            (if GameMode gs1 = ''freeSpins''
             then (let gs' = gs1\<lparr>FreeSpins_Remaining := wrap64 (FreeSpins_Remaining gs1 - 1)\<rparr> in
                   if FreeSpins_Remaining gs' \<le> 0
                   then gs'\<lparr>GameMode := ''base'', FreeSpins_Remaining := 0,
                            FreeSpins_TotalAwarded := 0, FreeSpins_Multiplier := 1\<rparr>
                   else gs')
             else gs1)
      in (gs2, r1))"

definition SpinHandler_totalCost :: "GameState \<Rightarrow> rat" where
  "SpinHandler_totalCost gs = (if GameMode gs = ''freeSpins'' then 0 else Bet_Amount gs)"

text \<open>
  \<open>SpinHandler_settle\<close> is the block \<open>// Get RTP and call RNG for bird symbol
  connections\<close>: an error reply, or the state, the stage-cleared symbols, the connections
  and the winnings that stand. \<open>SpinHandler_finish\<close> is the rest of the handler, from
  \<open>// Reset cascade count for new spin\<close> to the response.
\<close>

definition SpinHandler_settle ::
  "Services \<Rightarrow> Request \<Rightarrow> GameState \<Rightarrow> Rand \<Rightarrow> StageClearedSymbol list \<Rightarrow> Connection list \<Rightarrow> rat
     \<Rightarrow> (SpinResponse Reply +
         GameState \<times> Rand \<times> StageClearedSymbol list \<times> Connection list \<times> rat)" where
  "SpinHandler_settle sv req gs2 r1 stageClearedSymbols connections totalWinnings =
     (if length connections > 0 then
        (case askOutcome sv req gs2 totalWinnings of
           Inl e \<Rightarrow> Inl (Failed (fst e) (snd e))
         | Inr prefOutcome \<Rightarrow>
             if prefOutcome = ''loss'' then
               (case GenerateLossGrid (CurrentLevel gs2) r1 (GameMode gs2 = ''freeSpins'') of
                  None \<Rightarrow> Inl Panicked
                | Some (lossGrid, r2) \<Rightarrow>
                    (case FindStageClearedSymbols lossGrid (CurrentLevel gs2) of
                       None \<Rightarrow> Inl Panicked
                     | Some lossSymbols \<Rightarrow>
                         Inr (gs2\<lparr>Grid := lossGrid, StageClearedSymbols := lossSymbols\<rparr>,
                              r2, lossSymbols, [], 0)))
             else Inr (gs2, r1, stageClearedSymbols, connections, totalWinnings))
      else Inr (gs2, r1, stageClearedSymbols, connections, totalWinnings))"

definition SpinHandler_finish ::
  "GameState \<Rightarrow> Rand \<Rightarrow> StageClearedSymbol list \<Rightarrow> Connection list \<Rightarrow> rat \<Rightarrow> SpinResponse Reply" where
  "SpinHandler_finish gs3 r3 stageClearedSymbols connections totalWinnings =
     (let gs4 = gs3\<lparr>CascadeCount := 0, TotalWin := totalWinnings,
                    LastConnections := connections,
                    Cascading := (length connections > 0)\<rparr> in
      case CountFreeGameSymbols (Grid gs4) of
        None \<Rightarrow> Panicked
      | Some freeGameCount \<Rightarrow>
     (let (gs5, r4) = SpinHandler_freeSpins gs4 freeGameCount r3 in
      Succeeded
        \<lparr>sr_Status = ''success'', sr_Message = '''', sr_GameState = gs5,
         sr_StageClearedSymbols = stageClearedSymbols,
         sr_HasStageCleared = (length stageClearedSymbols > 0),
         sr_TotalCost = SpinHandler_totalCost gs5\<rparr>))"

definition SpinHandler :: "Services \<Rightarrow> Rand \<Rightarrow> Request \<Rightarrow> SpinResponse Reply" where
  "SpinHandler sv r req =
     (case validateRequest (ClientID req) (GameID req) (PlayerID req) (BetID req)
             (Bet_Amount (req_GameState req)) of
        Some err \<Rightarrow> Failed 400 err
      | None \<Rightarrow>
     (let gs1 = SpinHandler_prepare (req_GameState req);
          level = CurrentLevel gs1;
          forbidFreeGame = (GameMode gs1 = ''freeSpins'') in
      case GenerateGridWithWin level r forbidFreeGame of
        None \<Rightarrow> Panicked
      | Some (grid, r1) \<Rightarrow>
     (case FindStageClearedSymbols grid level of
        None \<Rightarrow> Panicked
      | Some stageClearedSymbols \<Rightarrow>
     (case FindRegularConnections grid level of
        None \<Rightarrow> Panicked
      | Some found \<Rightarrow>
     (let gs2 = gs1\<lparr>Grid := grid, StageClearedSymbols := stageClearedSymbols\<rparr>;
          (connections, totalWinnings) = payConnections gs2 found in
      case SpinHandler_settle sv req gs2 r1 stageClearedSymbols connections totalWinnings of
        Inl reply \<Rightarrow> reply
      | Inr (gs3, r3, symbols, connections', totalWinnings') \<Rightarrow>
          SpinHandler_finish gs3 r3 symbols connections' totalWinnings')))))"

section \<open>The stage-cleared handler\<close>

text \<open>
  \<open>ProcessStageClearedHandler_advance\<close> is the block \<open>// Process stage-cleared symbols\<close>:
  surgical removal, surgical gravity, the progress counter and the check for level
  advancement. It yields the early reply of the advancing branch, or the state and the
  new positions with which the handler goes on. \<open>originalGrid\<close> is a copy taken before;
  \<open>ApplySurgicalLoss\<close> receives it and does not use it.
\<close>

definition ProcessStageClearedHandler_advance ::
  "GameState \<Rightarrow> StageClearedSymbol list \<Rightarrow> Rand
     \<Rightarrow> (ProcessStageClearedResponse Reply + GameState \<times> Position list \<times> Rand)" where
  "ProcessStageClearedHandler_advance gs stageClearedSymbols r =
     (let oldLevel = CurrentLevel gs in
      case RemoveStageClearedSymbolsSurgical (Grid gs) stageClearedSymbols of
        None \<Rightarrow> Inl Panicked
      | Some removed \<Rightarrow>
     (case ApplyGravitySurgical removed stageClearedSymbols (CurrentLevel gs) r
             (GameMode gs = ''freeSpins'') of
        None \<Rightarrow> Inl Panicked
      | Some (grid, newPositions, r1) \<Rightarrow>
     (let gs1 = gs\<lparr>Grid := grid,
                   StageProgress :=
                     wrap64 (StageProgress gs + int (length stageClearedSymbols))\<rparr> in
      if StageProgress gs1 \<ge> StageProgressTarget then
        (let newLevel = AdvanceLevel oldLevel;
             excessProgress = StageProgress gs1 - StageProgressTarget;
             gs2 = (UpdateGameStateForLevel gs1 newLevel)\<lparr>StageProgress := excessProgress\<rparr>;
             (newGrid, r2) = GenerateGrid newLevel r1 False;
             gs3 = gs2\<lparr>Grid := newGrid, StageClearedSymbols := []\<rparr>
         in Inl (Succeeded
              \<lparr>pr_Status = ''success'', pr_Message = '''', pr_GameState = gs3,
               pr_StageClearedCount = int (length stageClearedSymbols),
               pr_LevelAdvanced = True, pr_OldLevel = oldLevel, pr_NewLevel = newLevel,
               pr_Connections = [], pr_TotalCost = 0\<rparr>))
      else Inr (gs1, newPositions, r1))))"

text \<open>
  \<open>ProcessStageClearedHandler_reconcile\<close> is the block
  \<open>// Handle RNG for bird symbol connections\<close>: it yields an error reply, or the state,
  the connections and winnings that stand, and the local flag \<open>rngBypassed\<close>.
\<close>

definition ProcessStageClearedHandler_reconcile ::
  "Services \<Rightarrow> Request \<Rightarrow> GameState \<Rightarrow> Grid \<Rightarrow> StageClearedSymbol list \<Rightarrow> Position list
     \<Rightarrow> Connection list \<Rightarrow> rat \<Rightarrow> Rand
     \<Rightarrow> (ProcessStageClearedResponse Reply + GameState \<times> Connection list \<times> rat \<times> bool \<times> Rand)" where
  "ProcessStageClearedHandler_reconcile sv req gs originalGrid stageClearedSymbols newPositions
       connections totalWinnings r =
     (if length connections > 0 then
        (case askOutcome sv req gs totalWinnings of
           Inl e \<Rightarrow> Inl (Failed (fst e) (snd e))
         | Inr prefOutcome \<Rightarrow>
             if prefOutcome = ''loss'' then
               (case ApplySurgicalLoss gs originalGrid stageClearedSymbols (CurrentLevel gs) r
                       newPositions of
                  None \<Rightarrow> Inl Panicked
                | Some (success, gs1, r1) \<Rightarrow>
                    if \<not> success then Inr (gs1, connections, totalWinnings, True, r1)
                    else Inr (gs1, [], 0, False, r1))
             else Inr (gs, connections, totalWinnings, False, r))
      else Inr (gs, connections, totalWinnings, False, r))"

text \<open>
  \<open>ProcessStageClearedHandler_finish\<close> is the rest of the handler after the block above,
  from \<open>// Clear the stage-cleared symbols from game state\<close> to the response.
\<close>

definition ProcessStageClearedHandler_finish ::
  "Services \<Rightarrow> Request \<Rightarrow> Grid \<Rightarrow> StageClearedSymbol list \<Rightarrow> Level \<Rightarrow> GameState
     \<Rightarrow> Position list \<Rightarrow> Rand \<Rightarrow> ProcessStageClearedResponse Reply" where
  "ProcessStageClearedHandler_finish sv req originalGrid stageClearedSymbols oldLevel gs1
       newPositions r1 =
     (let gs2 = gs1\<lparr>StageClearedSymbols := []\<rparr> in
      case FindRegularConnections (Grid gs2) (CurrentLevel gs2) of
        None \<Rightarrow> Panicked
      | Some found \<Rightarrow>
     (let (connections, totalWinnings) = payConnections gs2 found in
      case ProcessStageClearedHandler_reconcile sv req gs2 originalGrid stageClearedSymbols
             newPositions connections totalWinnings r1 of
        Inl reply \<Rightarrow> reply
      | Inr (gs3, connections', totalWinnings', rngBypassed, r2) \<Rightarrow>
     (let gs4 = gs3\<lparr>TotalWin := totalWinnings', LastConnections := connections',
                    Cascading := (length connections' > 0),
                    CascadeCount := (if length connections' > 0 then 1 else 0)\<rparr> in
      Succeeded
        \<lparr>pr_Status = ''success'', pr_Message = '''', pr_GameState = gs4,
         pr_StageClearedCount = int (length stageClearedSymbols), pr_LevelAdvanced = False,
         pr_OldLevel = oldLevel, pr_NewLevel = oldLevel,
         pr_Connections = connections', pr_TotalCost = 0\<rparr>)))"

definition ProcessStageClearedHandler ::
  "Services \<Rightarrow> Rand \<Rightarrow> Request \<Rightarrow> ProcessStageClearedResponse Reply" where
  "ProcessStageClearedHandler sv r req =
     (case validateRequest (ClientID req) (GameID req) (PlayerID req) (BetID req)
             (Bet_Amount (req_GameState req)) of
        Some err \<Rightarrow> Failed 400 err
      | None \<Rightarrow>
     (let gs0 = req_GameState req in
      if \<not> ValidateGridDimensions (Grid gs0) (CurrentLevel gs0)
      then Failed 400 ''Invalid grid dimensions''
      else
     (case (if length (StageClearedSymbols gs0) = 0
            then FindStageClearedSymbols (Grid gs0) (CurrentLevel gs0)
            else Some (StageClearedSymbols gs0)) of
        None \<Rightarrow> Panicked
      | Some stageClearedSymbols \<Rightarrow>
     (let originalGrid = Grid gs0;
          oldLevel = CurrentLevel gs0 in
      case ProcessStageClearedHandler_advance gs0 stageClearedSymbols r of
        Inl reply \<Rightarrow> reply
      | Inr (gs1, newPositions, r1) \<Rightarrow>
          ProcessStageClearedHandler_finish sv req originalGrid stageClearedSymbols oldLevel
            gs1 newPositions r1))))"

section \<open>The cascade handler\<close>

text \<open>
  \<open>CascadeHandler_process\<close> is the block \<open>// Process cascade surgically\<close> with the
  detection that follows it: it yields the grid, the connections and the new positions.
\<close>

definition CascadeHandler_process ::
  "GameState \<Rightarrow> Rand \<Rightarrow> (GameState \<times> Connection list \<times> Position list \<times> Position list \<times> Rand) option" where
  "CascadeHandler_process gs r =
     (let level = CurrentLevel gs;
          forbidFreeGame = (GameMode gs = ''freeSpins'');
          step =
            (if CascadeCount gs \<ge> 1 \<and> length (LastConnections gs) > 0 then
               (case RemoveConnectionsSurgical (Grid gs) (LastConnections gs) of
                  None \<Rightarrow> None
                | Some (removed, affectedPositions) \<Rightarrow>
                    (case ApplyGravitySurgicalForCascade removed affectedPositions level r
                            forbidFreeGame of
                       None \<Rightarrow> None
                     | Some (grid, newPositions, r1) \<Rightarrow>
                         Some (grid, [], affectedPositions, newPositions, r1)))
             else
               (case FindRegularConnections (Grid gs) level of
                  None \<Rightarrow> None
                | Some connections \<Rightarrow>
                    if length connections > 0 then
                      (let affectedPositions = concat (map Positions connections) in
                       case ApplyGravitySurgicalForCascade (Grid gs) affectedPositions level r
                              forbidFreeGame of
                         None \<Rightarrow> None
                       | Some (grid, newPositions, r1) \<Rightarrow>
                           Some (grid, connections, affectedPositions, newPositions, r1))
                    else Some (Grid gs, connections, [], [], r)))
      in case step of
           None \<Rightarrow> None
         | Some (grid, connections, affectedPositions, newPositions, r1) \<Rightarrow>
             (if CascadeCount gs \<ge> 1 \<or> length connections = 0 then
                (case FindRegularConnections grid level of
                   None \<Rightarrow> None
                 | Some connections' \<Rightarrow>
                     Some (gs\<lparr>Grid := grid\<rparr>, connections', affectedPositions, newPositions, r1))
              else Some (gs\<lparr>Grid := grid\<rparr>, connections, affectedPositions, newPositions, r1)))"

text \<open>
  \<open>CascadeHandler_reconcile\<close> is the block
  \<open>// Handle RNG for bird symbol connections with surgical loss approach\<close>.
\<close>

definition CascadeHandler_reconcile ::
  "Services \<Rightarrow> Request \<Rightarrow> GameState \<Rightarrow> Grid \<Rightarrow> Position list \<Rightarrow> Connection list \<Rightarrow> rat \<Rightarrow> Rand
     \<Rightarrow> (CascadeResponse Reply + GameState \<times> Connection list \<times> rat \<times> bool \<times> Rand)" where
  "CascadeHandler_reconcile sv req gs originalGrid newPositions connections totalWinnings r =
     (if length connections > 0 then
        (case askOutcome sv req gs totalWinnings of
           Inl e \<Rightarrow> Inl (Failed (fst e) (snd e))
         | Inr prefOutcome \<Rightarrow>
             if prefOutcome = ''loss'' then
               (case ApplySurgicalLossForCascade gs originalGrid newPositions (CurrentLevel gs) r of
                  None \<Rightarrow> Inl Panicked
                | Some (success, gs1, r1) \<Rightarrow>
                    if \<not> success then Inr (gs1, connections, totalWinnings, True, r1)
                    else Inr (gs1, [], 0, False, r1))
             else Inr (gs, connections, totalWinnings, False, r))
      else Inr (gs, connections, totalWinnings, False, r))"

text \<open>
  \<open>CascadeHandler_finish\<close> is the rest of the handler, from
  \<open>// Calculate total winnings\<close> to the response.
\<close>

definition CascadeHandler_finish ::
  "Services \<Rightarrow> Request \<Rightarrow> Grid \<Rightarrow> GameState \<Rightarrow> Connection list \<Rightarrow> Position list \<Rightarrow> Rand
     \<Rightarrow> CascadeResponse Reply" where
  "CascadeHandler_finish sv req originalGrid gs2 found newPositions r1 =
     (let (connections, totalWinnings) = payConnections gs2 found in
      case CascadeHandler_reconcile sv req gs2 originalGrid newPositions connections
             totalWinnings r1 of
        Inl reply \<Rightarrow> reply
      | Inr (gs3, connections', totalWinnings', rngBypassed, r2) \<Rightarrow>
     (case FindStageClearedSymbols (Grid gs3) (CurrentLevel gs3) of
        None \<Rightarrow> Panicked
      | Some stageClearedSymbols \<Rightarrow>
     (let gs4 = gs3\<lparr>StageClearedSymbols := stageClearedSymbols\<rparr> in
      case (if length connections' = 0 \<and> \<not> rngBypassed
            then (case CountFreeGameSymbols (Grid gs4) of
                    None \<Rightarrow> None
                  | Some freeGameCount \<Rightarrow>
                      if GameMode gs4 = ''base'' \<and> freeGameCount > 0
                      then (let (m, r3) = GetRandomFreeSpinMultiplier r2 in
                            Some (gs4\<lparr>GameMode := ''freeSpins'',
                                       FreeSpins_Remaining := FreeSpinsAwarded,
                                       FreeSpins_TotalAwarded := FreeSpinsAwarded,
                                       FreeSpins_Multiplier := m\<rparr>, r3))
                      else Some (gs4, r2))
            else Some (gs4, r2)) of
        None \<Rightarrow> Panicked
      | Some (gs5, r3) \<Rightarrow>
     (let gs6 = gs5\<lparr>TotalWin := totalWinnings', LastConnections := connections',
                    Cascading := (length connections' > 0)\<rparr> in
      Succeeded
        \<lparr>cr_Status = ''success'', cr_Message = '''', cr_GameState = gs6,
         cr_Connections = connections', cr_StageClearedSymbols = stageClearedSymbols,
         cr_HasStageCleared = (length stageClearedSymbols > 0), cr_TotalCost = 0\<rparr>))))"

definition CascadeHandler :: "Services \<Rightarrow> Rand \<Rightarrow> Request \<Rightarrow> CascadeResponse Reply" where
  "CascadeHandler sv r req =
     (case validateRequest (ClientID req) (GameID req) (PlayerID req) (BetID req)
             (Bet_Amount (req_GameState req)) of
        Some err \<Rightarrow> Failed 400 err
      | None \<Rightarrow>
     (let gs0 = req_GameState req in
      if \<not> ValidateGridDimensions (Grid gs0) (CurrentLevel gs0)
      then Failed 400 ''Invalid grid dimensions''
      else
     (let gs1 = gs0\<lparr>CascadeCount := wrap64 (CascadeCount gs0 + 1)\<rparr>;
          originalGrid = Grid gs1 in
      case CascadeHandler_process gs1 r of
        None \<Rightarrow> Panicked
      | Some (gs2, found, affectedPositions, newPositions, r1) \<Rightarrow>
          CascadeHandler_finish sv req originalGrid gs2 found newPositions r1)))"

section \<open>Predicates used in the statements\<close>

text \<open>
  \<open>squareGrid n g\<close>: the grid has \<open>n\<close> rows of \<open>n\<close> cells each. It is what
  \<open>ValidateGridDimensions\<close> checks against the size of the level.
\<close>

definition squareGrid :: "nat \<Rightarrow> 'a list list \<Rightarrow> bool" where
  "squareGrid n g \<longleftrightarrow> map length g = replicate n n"

section \<open>Concrete inputs on which the theorems are exercised\<close>




definition isSucceeded :: "'a Reply \<Rightarrow> bool" where
  "isSucceeded reply = (case reply of Succeeded x \<Rightarrow> True | Failed c m \<Rightarrow> False | Panicked \<Rightarrow> False)"

definition theResponse :: "'a Reply \<Rightarrow> 'a option" where
  "theResponse reply = (case reply of Succeeded x \<Rightarrow> Some x | Failed c m \<Rightarrow> None | Panicked \<Rightarrow> None)"

definition exampleServices :: Services where
  "exampleServices =
     \<lparr>GetRTP = (\<lambda>c g p. Some (95/100)),
      GetOutcome = (\<lambda>c g p b rtp m a. Some ''win'')\<rparr>"

definition lossServices :: Services where
  "lossServices =
     \<lparr>GetRTP = (\<lambda>c g p. Some (95/100)),
      GetOutcome = (\<lambda>c g p b rtp m a. Some ''loss'')\<rparr>"

definition failingServices :: Services where
  "failingServices =
     \<lparr>GetRTP = (\<lambda>c g p. None),
      GetOutcome = (\<lambda>c g p b rtp m a. None)\<rparr>"

definition exampleRand :: Rand where
  "exampleRand =
     \<lparr>floats = [], intns = [], symbolOrders = [], columnOrders = [], positionOrders = []\<rparr>"

definition exampleStageGrid :: Grid where
  "exampleStageGrid =
     [[''orange_slice'', ''blue_owl'', ''yellow_owl'', ''green_owl''],
      [''red_owl'', ''purple_owl'', ''orange_slice'', ''blue_owl''],
      [''blue_owl'', ''orange_slice'', ''purple_owl'', ''red_owl''],
      [''purple_owl'', ''yellow_owl'', ''blue_owl'', ''orange_slice'']]"

definition exampleStageState :: "int \<Rightarrow> GameState" where
  "exampleStageState progress =
     \<lparr>Bet_Amount = 1/10, Bet_Multiplier = 1, CurrentLevel = Level1, GridSize = 4,
      Grid = exampleStageGrid, StageProgress = progress, GameMode = ''base'',
      FreeSpins_Remaining = 0, FreeSpins_TotalAwarded = 0, FreeSpins_Multiplier = 1,
      TotalWin = 7/10, Cascading = False, LastConnections = [], CascadeCount = 3,
      StageClearedSymbols = []\<rparr>"

definition exampleRequest :: "GameState \<Rightarrow> Request" where
  "exampleRequest gs =
     \<lparr>req_GameState = gs, ClientID = ''client'', GameID = ''birdsparty'',
      PlayerID = ''player'', BetID = ''bet''\<rparr>"

definition exampleStageFound :: "StageClearedSymbol list" where
  "exampleStageFound =
     [\<lparr>sc_Symbol = ''orange_slice'', sc_Position = \<lparr>X = 0, Y = 0\<rparr>\<rparr>,
      \<lparr>sc_Symbol = ''orange_slice'', sc_Position = \<lparr>X = 2, Y = 1\<rparr>\<rparr>,
      \<lparr>sc_Symbol = ''orange_slice'', sc_Position = \<lparr>X = 1, Y = 2\<rparr>\<rparr>,
      \<lparr>sc_Symbol = ''orange_slice'', sc_Position = \<lparr>X = 3, Y = 3\<rparr>\<rparr>]"

definition exampleSettledGrid :: Grid where
  "exampleSettledGrid =
     [[''purple_owl'', ''purple_owl'', ''purple_owl'', ''purple_owl''],
      [''red_owl'', ''blue_owl'', ''yellow_owl'', ''green_owl''],
      [''blue_owl'', ''purple_owl'', ''purple_owl'', ''blue_owl''],
      [''purple_owl'', ''yellow_owl'', ''blue_owl'', ''red_owl'']]"

definition exampleTopRow :: "Position list" where
  "exampleTopRow = [\<lparr>X = 0, Y = 0\<rparr>, \<lparr>X = 2, Y = 0\<rparr>, \<lparr>X = 1, Y = 0\<rparr>, \<lparr>X = 3, Y = 0\<rparr>]"

definition exampleTopRowInOrder :: "Position list" where
  "exampleTopRowInOrder = [\<lparr>X = 0, Y = 0\<rparr>, \<lparr>X = 1, Y = 0\<rparr>, \<lparr>X = 2, Y = 0\<rparr>, \<lparr>X = 3, Y = 0\<rparr>]"

definition exampleTopConnection :: "Connection list" where
  "exampleTopConnection =
     [\<lparr>Symbol = ''purple_owl'', Positions = exampleTopRowInOrder, Count = 4, Payout = 1/25\<rparr>]"

definition exampleCascadeState :: GameState where
  "exampleCascadeState =
     (exampleStageState 9)\<lparr>Grid := exampleSettledGrid, LastConnections := exampleTopConnection,
                            CascadeCount := 1\<rparr>"

definition exampleSpinState :: "string \<Rightarrow> int \<Rightarrow> Level \<Rightarrow> GameState" where
  "exampleSpinState mode remaining level =
     \<lparr>Bet_Amount = 1/2, Bet_Multiplier = 5, CurrentLevel = level, GridSize = 4, Grid = [],
      StageProgress = 0, GameMode = mode, FreeSpins_Remaining = remaining,
      FreeSpins_TotalAwarded = (if mode = ''freeSpins'' then 10 else 0),
      FreeSpins_Multiplier = (if mode = ''freeSpins'' then 2 else 1), TotalWin = 0,
      Cascading = False, LastConnections = [], CascadeCount = 0, StageClearedSymbols = []\<rparr>"

definition triggerRand :: Rand where
  "triggerRand =
     \<lparr>floats = [], intns = [], symbolOrders = [[''free_game'']], columnOrders = [],
      positionOrders = []\<rparr>"

definition spinSummary :: "SpinResponse Reply \<Rightarrow> (rat \<times> string \<times> int \<times> rat \<times> int) option" where
  "spinSummary reply =
     map_option (\<lambda>resp. (sr_TotalCost resp, GameMode (sr_GameState resp),
                         FreeSpins_Remaining (sr_GameState resp),
                         Bet_Amount (sr_GameState resp), Bet_Multiplier (sr_GameState resp)))
       (theResponse reply)"

section \<open>Payout of a connection\<close>

lemma floor_int_plus_half: "\<lfloor>of_int m + (1::rat) / 2\<rfloor> = m"
  by (simp add: floor_eq_iff)

lemma mathRound_of_int: "mathRound (of_int n) = n"
proof (cases "0 \<le> n")
  case True
  then show ?thesis by (simp add: mathRound_def floor_int_plus_half)
next
  case False
  have "\<lfloor>- rat_of_int n + 1 / 2\<rfloor> = - n"
    using floor_int_plus_half [of "- n"] by simp
  with False show ?thesis by (simp add: mathRound_def)
qed

lemma mathRound_numeral: "mathRound (numeral k) = numeral k"
  using mathRound_of_int [of "numeral k"] by simp

lemma round_go_hundredths: "round_go (of_int n / 100) = of_int n / 100"
  by (simp add: round_go_def mathRound_of_int)

lemma round_go_payout:
  "round_go (of_int p * (1/100) * of_int m) = of_int (p * m) / 100"
proof -
  have "of_int p * (1/100) * of_int m = (of_int (p * m) :: rat) / 100" by simp
  then show ?thesis by (simp only: round_go_hundredths)
qed

















section \<open>Shape of the grid: no edit changes it, and square grids never panic\<close>

lemma squareGrid_length: "squareGrid n g \<Longrightarrow> length g = n"
  by (metis squareGrid_def length_map length_replicate)

lemma squareGrid_row: "squareGrid n g \<Longrightarrow> i < n \<Longrightarrow> length (g ! i) = n"
proof -
  assume a: "squareGrid n g" "i < n"
  then have "map length g ! i = replicate n n ! i" by (simp add: squareGrid_def)
  with a show ?thesis by (simp add: squareGrid_length)
qed

lemma ValidateGridDimensions_square:
  "ValidateGridDimensions grid level \<longleftrightarrow> squareGrid (nat (GetGridSize level)) grid"
proof -
  have pos: "0 \<le> GetGridSize level" by (simp add: GetGridSize_def)
  show ?thesis
  proof
    assume v: "ValidateGridDimensions grid level"
    then have l: "length grid = nat (GetGridSize level)"
      and rows: "\<forall>row\<in>set grid. length row = nat (GetGridSize level)"
      by (auto simp: ValidateGridDimensions_def list_all_iff)
    have "map length grid = replicate (length grid) (nat (GetGridSize level))"
      using rows by (simp add: map_replicate_const [symmetric] cong: map_cong)
    then show "squareGrid (nat (GetGridSize level)) grid" by (simp add: squareGrid_def l)
  next
    assume s: "squareGrid (nat (GetGridSize level)) grid"
    then have l: "length grid = nat (GetGridSize level)" by (rule squareGrid_length)
    have "length row = nat (GetGridSize level)" if "row \<in> set grid" for row
    proof -
      from that obtain i where "i < length grid" "grid ! i = row" by (auto simp: in_set_conv_nth)
      then show ?thesis using squareGrid_row [OF s, of i] l by simp
    qed
    with l pos show "ValidateGridDimensions grid level"
      by (auto simp: ValidateGridDimensions_def list_all_iff)
  qed
qed

lemma cellAt_square:
  "squareGrid n g \<Longrightarrow> 0 \<le> x \<Longrightarrow> x < int n \<Longrightarrow> 0 \<le> y \<Longrightarrow> y < int n \<Longrightarrow>
     cellAt g y x = Some (g ! nat y ! nat x)"
  by (simp add: cellAt_def inRange_def squareGrid_length squareGrid_row)

lemma setCell_shape: "setCell g y x v = Some g' \<Longrightarrow> map length g' = map length g"
proof -
  assume a: "setCell g y x v = Some g'"
  then have y: "nat y < length g" and g': "g' = g[nat y := (g ! nat y)[nat x := v]]"
    by (auto simp: setCell_def inRange_def split: if_splits)
  have "map length g' = (map length g)[nat y := map length g ! nat y]"
    using y by (simp add: g' map_update)
  then show ?thesis by simp
qed

lemma setCell_square:
  "squareGrid n g \<Longrightarrow> 0 \<le> x \<Longrightarrow> x < int n \<Longrightarrow> 0 \<le> y \<Longrightarrow> y < int n \<Longrightarrow>
     setCell g y x v = Some (g[nat y := (g ! nat y)[nat x := v]])"
  by (simp add: setCell_def inRange_def squareGrid_length squareGrid_row)

lemma squareGrid_shape: "map length g' = map length g \<Longrightarrow> squareGrid n g \<Longrightarrow> squareGrid n g'"
  by (simp add: squareGrid_def)

lemma RemoveStageClearedSymbolsSurgical_shape:
  "RemoveStageClearedSymbolsSurgical g scs = Some g' \<Longrightarrow> map length g' = map length g"
proof (induction scs arbitrary: g)
  case Nil
  then show ?case by simp
next
  case (Cons s scs)
  then show ?case
    by (auto simp: Let_def split: if_splits option.splits dest!: setCell_shape)
qed

lemma RemoveStageClearedSymbolsSurgical_total:
  "squareGrid n g \<Longrightarrow> \<exists>g'. RemoveStageClearedSymbolsSurgical g scs = Some g'"
proof (induction scs arbitrary: g)
  case Nil
  then show ?case by simp
next
  case (Cons s scs)
  show ?case
  proof (cases "X (sc_Position s) \<ge> 0 \<and> X (sc_Position s) < int (length g) \<and>
                Y (sc_Position s) \<ge> 0 \<and> Y (sc_Position s) < int (length g)")
    case True
    with Cons.prems have sc: "setCell g (Y (sc_Position s)) (X (sc_Position s)) '''' =
        Some (g[nat (Y (sc_Position s)) := (g ! nat (Y (sc_Position s)))[nat (X (sc_Position s)) := '''']])"
      by (intro setCell_square [of n]) (auto simp: squareGrid_length)
    have "squareGrid n (g[nat (Y (sc_Position s)) := (g ! nat (Y (sc_Position s)))[nat (X (sc_Position s)) := '''']])"
      using squareGrid_shape [OF setCell_shape [OF sc] Cons.prems] .
    from Cons.IH [OF this] True sc show ?thesis by (simp add: Let_def)
  next
    case False
    with Cons.IH [OF Cons.prems] show ?thesis by (auto simp: Let_def)
  qed
qed

lemma compactColumn_shape:
  "compactColumn g x k wp = Some (g', wp') \<Longrightarrow> map length g' = map length g"
proof (induction k arbitrary: g wp)
  case 0
  then show ?case by simp
next
  case (Suc k)
  then show ?case
    by (auto split: option.splits if_splits dest!: setCell_shape)
qed

lemma compactColumn_writePos:
  "compactColumn g x k wp = Some (g', wp') \<Longrightarrow> wp - int k \<le> wp' \<and> wp' \<le> wp"
proof (induction k arbitrary: g wp)
  case 0
  then show ?case by simp
next
  case (Suc k)
  then show ?case
    by (fastforce split: option.splits if_splits)
qed

lemma compactColumn_total:
  assumes "squareGrid n g" "0 \<le> x" "x < int n" "k \<le> n" "int k - 1 \<le> wp" "wp < int n"
  shows "\<exists>g' wp'. compactColumn g x k wp = Some (g', wp')"
  using assms
proof (induction k arbitrary: g wp)
  case 0
  then show ?case by simp
next
  case (Suc k)
  from Suc.prems have c: "cellAt g (int k) x = Some (g ! k ! nat x)"
    using cellAt_square [of n g x "int k"] by simp
  show ?case
  proof (cases "g ! k ! nat x \<noteq> []")
    case False
    with c Suc.IH [of g wp] Suc.prems show ?thesis by simp
  next
    case True
    note nonempty = this
    show ?thesis
    proof (cases "int k = wp")
      case True
      with nonempty c Suc.IH [of g "wp - 1"] Suc.prems show ?thesis by simp
    next
      case False
      from Suc.prems have s1: "setCell g wp x (g ! k ! nat x) =
          Some (g[nat wp := (g ! nat wp)[nat x := g ! k ! nat x]])"
        by (intro setCell_square [of n]) auto
      define g1 where "g1 = g[nat wp := (g ! nat wp)[nat x := g ! k ! nat x]]"
      have sq1: "squareGrid n g1"
        using squareGrid_shape [OF setCell_shape [OF s1] Suc.prems(1)] by (simp add: g1_def)
      from Suc.prems sq1 have s2: "setCell g1 (int k) x [] =
          Some (g1[nat (int k) := (g1 ! nat (int k))[nat x := []]])"
        by (intro setCell_square [of n]) auto
      define g2 where "g2 = g1[nat (int k) := (g1 ! nat (int k))[nat x := []]]"
      have sq2: "squareGrid n g2"
        using squareGrid_shape [OF setCell_shape [OF s2] sq1] by (simp add: g2_def)
      from Suc.IH [OF sq2, of "wp - 1"] Suc.prems False
      obtain g' wp' where "compactColumn g2 x k (wp - 1) = Some (g', wp')" by auto
      with c nonempty False s1 s2 show ?thesis
        by (simp add: g1_def g2_def)
    qed
  qed
qed

lemma fillColumn_shape:
  "fillColumn g level forbid x ys r np = Some (g', r', np') \<Longrightarrow> map length g' = map length g"
proof (induction ys arbitrary: g r np)
  case Nil
  then show ?case by simp
next
  case (Cons y ys)
  then show ?case
    by (auto simp: Let_def split: option.splits prod.splits dest!: setCell_shape)
qed

lemma fillColumn_total:
  assumes "squareGrid n g" "0 \<le> x" "x < int n" "\<forall>y\<in>set ys. 0 \<le> y \<and> y < int n"
  shows "\<exists>g' r' np'. fillColumn g level forbid x ys r np = Some (g', r', np')"
  using assms
proof (induction ys arbitrary: g r np)
  case Nil
  then show ?case by simp
next
  case (Cons y ys)
  obtain symbol r1 where w: "WeightedRandomSymbolWithControl level r
      (\<not> (\<not> hasFreeGameSymbol g \<and> \<not> forbid)) = (symbol, r1)" by force
  from Cons.prems have s: "setCell g y x symbol = Some (g[nat y := (g ! nat y)[nat x := symbol]])"
    by (intro setCell_square [of n]) auto
  have "squareGrid n (g[nat y := (g ! nat y)[nat x := symbol]])"
    using squareGrid_shape [OF setCell_shape [OF s] Cons.prems(1)] .
  from Cons.IH [OF this] Cons.prems w s show ?case by (simp add: Let_def)
qed

lemma gravityColumns_shape:
  "gravityColumns n g level forbid xs r np = Some (g', r', np') \<Longrightarrow> map length g' = map length g"
proof (induction xs arbitrary: g r np)
  case Nil
  then show ?case by simp
next
  case (Cons x xs)
  then show ?case
    by (auto split: if_splits option.splits prod.splits
        dest!: compactColumn_shape fillColumn_shape)
qed

lemma gravityColumns_total:
  assumes "squareGrid n g"
  shows "\<exists>g' r' np'. gravityColumns n g level forbid xs r np = Some (g', r', np')"
  using assms
proof (induction xs arbitrary: g r np)
  case Nil
  then show ?case by simp
next
  case (Cons x xs)
  show ?case
  proof (cases "x \<ge> 0 \<and> x < int n")
    case False
    from Cons.IH [OF Cons.prems, of r np] obtain g' r' np' where
      "gravityColumns n g level forbid xs r np = Some (g', r', np')" by blast
    then show ?thesis by (simp only: gravityColumns.simps if_not_P [OF False]) blast
  next
    case True
    then have x0: "0 \<le> x" and xn: "x < int n" by simp_all
    have "\<exists>g' wp'. compactColumn g x n (int n - 1) = Some (g', wp')"
      using Cons.prems x0 xn by (intro compactColumn_total [of n]) simp_all
    then obtain g1 wp where c: "compactColumn g x n (int n - 1) = Some (g1, wp)" by blast
    have sq1: "squareGrid n g1"
      using squareGrid_shape [OF compactColumn_shape [OF c] Cons.prems] .
    from compactColumn_writePos [OF c] have "wp \<le> int n - 1" by simp
    then have ys: "\<forall>y\<in>set [0..wp]. 0 \<le> y \<and> y < int n" by simp
    have "\<exists>g' r' np'. fillColumn g1 level forbid x [0..wp] r np = Some (g', r', np')"
      by (rule fillColumn_total [OF sq1 x0 xn ys])
    then obtain g2 r1 np1 where f: "fillColumn g1 level forbid x [0..wp] r np = Some (g2, r1, np1)"
      by blast
    have sq2: "squareGrid n g2"
      using squareGrid_shape [OF fillColumn_shape [OF f] sq1] .
    from Cons.IH [OF sq2, of r1 np1] obtain g' r' np' where
      "gravityColumns n g2 level forbid xs r1 np1 = Some (g', r', np')" by blast
    then show ?thesis
      by (simp only: gravityColumns.simps if_P [OF True] c f option.case prod.case) blast
  qed
qed

lemma ApplyGravitySurgical_shape:
  "ApplyGravitySurgical g scs level r forbid = Some (g', np, r') \<Longrightarrow> map length g' = map length g"
  by (auto simp: ApplyGravitySurgical_def Let_def split: prod.splits option.splits
      dest!: gravityColumns_shape)

lemma ApplyGravitySurgical_total:
  assumes sq: "squareGrid n g"
  shows "\<exists>g' np r'. ApplyGravitySurgical g scs level r forbid = Some (g', np, r')"
proof -
  obtain ord r1 where o: "nextColumnOrder r = (ord, r1)" by force
  from gravityColumns_total [OF sq] obtain g' r' np' where
    "gravityColumns n g level forbid
       (mapOrder ord (remdups (map (\<lambda>s. X (sc_Position s)) scs))) r1 [] = Some (g', r', np')"
    by blast
  then show ?thesis
    by (simp add: ApplyGravitySurgical_def Let_def o squareGrid_length [OF sq])
qed

lemma ApplyGravitySurgicalForCascade_shape:
  "ApplyGravitySurgicalForCascade g ps level r forbid = Some (g', np, r') \<Longrightarrow>
     map length g' = map length g"
  by (auto simp: ApplyGravitySurgicalForCascade_def Let_def split: prod.splits option.splits
      dest!: gravityColumns_shape)

lemma GenerateGrid_row_length:
  "GenerateGrid_row level forbid n placed r = (row, placed', r') \<Longrightarrow> length row = n"
proof (induction n arbitrary: placed r row placed' r')
  case 0
  then show ?case by simp
next
  case (Suc n)
  then show ?case
    by (auto simp: Let_def split: prod.splits)
qed

lemma GenerateGrid_rows_shape:
  "GenerateGrid_rows level forbid n k placed r = (g, placed', r') \<Longrightarrow>
     map length g = replicate k n"
proof (induction k arbitrary: placed r g placed' r')
  case 0
  then show ?case by simp
next
  case (Suc k)
  then show ?case
    by (auto simp: Let_def split: prod.splits dest!: GenerateGrid_row_length)
qed

lemma GenerateGrid_square:
  "GenerateGrid level r forbid = (g, r') \<Longrightarrow> squareGrid (nat (GetGridSize level)) g"
  by (auto simp: GenerateGrid_def Let_def squareGrid_def split: prod.splits
      dest!: GenerateGrid_rows_shape)

lemma collectCells_total:
  assumes "squareGrid n g" "\<forall>p\<in>set ps. 0 \<le> X p \<and> X p < int n \<and> 0 \<le> Y p \<and> Y p < int n"
  shows "\<exists>cells. collectCells g ps = Some cells"
  using assms(2)
proof (induction ps)
  case Nil
  then show ?case by simp
next
  case (Cons p ps)
  then have "cellAt g (Y p) (X p) = Some (g ! nat (Y p) ! nat (X p))"
    by (intro cellAt_square [OF assms(1)]) simp_all
  moreover from Cons obtain cells where "collectCells g ps = Some cells" by auto
  ultimately show ?case by simp
qed

lemma rowMajor_bounds:
  "p \<in> set (rowMajor n) \<Longrightarrow> 0 \<le> X p \<and> X p < int n \<and> 0 \<le> Y p \<and> Y p < int n"
  by (auto simp: rowMajor_def)

lemma FindStageClearedSymbols_total:
  assumes "squareGrid n g"
  shows "\<exists>found. FindStageClearedSymbols g level = Some found"
proof -
  have "\<exists>cells. collectCells g (rowMajor n) = Some cells"
    by (rule collectCells_total [OF assms]) (simp add: rowMajor_bounds)
  then show ?thesis
    by (auto simp: FindStageClearedSymbols_def Let_def squareGrid_length [OF assms])
qed

lemma AdvanceLevel_cycle:
  "AdvanceLevel 1 = 2" "AdvanceLevel 2 = 3" "AdvanceLevel 3 = 1"
  by (simp_all add: AdvanceLevel_def Level_defs)

lemma wrap64_id: "- (2 ^ 63) \<le> i \<Longrightarrow> i < 2 ^ 63 \<Longrightarrow> wrap64 i = i"
  by (simp add: wrap64_def)

section \<open>What a surgical loss can change\<close>

lemma surgicalTry_shape:
  "surgicalTry level fb cnt ps tg m r = Some (Some g', r') \<Longrightarrow> map length g' = map length tg"
proof (induction ps arbitrary: tg m r)
  case Nil
  then show ?case by simp
next
  case (Cons p ps)
  show ?case
  proof (cases "m \<ge> cnt")
    case True
    with Cons.prems show ?thesis by simp
  next
    case False
    note notfull = this
    show ?thesis
    proof (cases "X p \<ge> 0 \<and> X p < int (length tg) \<and> Y p \<ge> 0 \<and> Y p < int (length (tg ! 0))")
      case False
      with notfull Cons.prems have "surgicalTry level fb cnt ps tg m r = Some (Some g', r')"
        by (simp only: surgicalTry.simps if_not_P if_False)
      then show ?thesis by (rule Cons.IH)
    next
      case True
      obtain newSymbol r1 where w: "WeightedRandomSymbolWithControl level r fb = (newSymbol, r1)"
        by force
      from Cons.prems notfull True w obtain orig tg1 conns where
        c: "cellAt tg (Y p) (X p) = Some orig" and
        s: "setCell tg (Y p) (X p) newSymbol = Some tg1" and
        f: "FindRegularConnections tg1 level = Some conns" and
        rest: "(if length conns = 0 then Some (Some tg1, r1)
                else surgicalTry level fb cnt ps tg1 (m + 1) r1) = Some (Some g', r')"
        by (simp only: surgicalTry.simps if_not_P if_P split: option.splits)
           (auto simp: Let_def split: option.splits)
      show ?thesis
      proof (cases "length conns = 0")
        case True
        with rest have "g' = tg1" by simp
        with setCell_shape [OF s] show ?thesis by simp
      next
        case False
        with rest have "surgicalTry level fb cnt ps tg1 (m + 1) r1 = Some (Some g', r')" by simp
        from Cons.IH [OF this] setCell_shape [OF s] show ?thesis by simp
      qed
    qed
  qed
qed

lemma surgicalAttempts_shape:
  "surgicalAttempts k level fb cnt allowed g r = Some (Some g', r') \<Longrightarrow>
     map length g' = map length g"
proof (induction k arbitrary: r)
  case 0
  then show ?case by simp
next
  case (Suc k)
  obtain ord r1 where o: "nextPositionOrder r = (ord, r1)" by force
  show ?case
  proof (cases "surgicalTry level fb cnt (mapOrder ord allowed) g 0 r1")
    case None
    with Suc.prems o show ?thesis by simp
  next
    case (Some res)
    obtain og r2 where res: "res = (og, r2)" by force
    show ?thesis
    proof (cases og)
      case None
      with Suc.prems o Some res have "surgicalAttempts k level fb cnt allowed g r2 = Some (Some g', r')"
        by simp
      then show ?thesis by (rule Suc.IH)
    next
      case (Some tg)
      with Suc.prems o \<open>surgicalTry level fb cnt (mapOrder ord allowed) g 0 r1 = Some res\<close> res
      have "surgicalTry level fb cnt (mapOrder ord allowed) g 0 r1 = Some (Some g', r')" by simp
      then show ?thesis by (rule surgicalTry_shape)
    qed
  qed
qed

lemma ApplySurgicalLoss_result:
  assumes "ApplySurgicalLoss gs og scs level r np = Some (success, gs', r')"
  shows "(\<not> success \<longrightarrow> gs' = gs) \<and>
         (\<exists>tg. gs' = gs\<lparr>Grid := tg\<rparr> \<and> map length tg = map length (Grid gs))"
proof (cases "FindRegularConnections (Grid gs) level")
  case None
  with assms show ?thesis by (simp add: ApplySurgicalLoss_def)
next
  case (Some conns)
  show ?thesis
  proof (cases "length conns = 0")
    case True
    with assms Some have "gs' = gs" "success" by (simp_all add: ApplySurgicalLoss_def)
    then show ?thesis by (intro conjI exI [of _ "Grid gs"]) simp_all
  next
    case False
    define att where "att = surgicalAttempts 50 level (GameMode gs = ''freeSpins'')
        (min 3 (int (length (remdups np)))) (remdups np) (Grid gs) r"
    from assms Some False have a: "(case att of None \<Rightarrow> None
        | Some (Some testGrid, r1) \<Rightarrow> Some (True, gs\<lparr>Grid := testGrid\<rparr>, r1)
        | Some (None, r1) \<Rightarrow> Some (False, gs, r1)) = Some (success, gs', r')"
      by (simp add: ApplySurgicalLoss_def att_def Let_def)
    show ?thesis
    proof (cases att)
      case None
      with a show ?thesis by simp
    next
      case (Some res)
      obtain og2 r2 where res: "res = (og2, r2)" by force
      show ?thesis
      proof (cases og2)
        case None
        with a Some res have "gs' = gs" "\<not> success" by simp_all
        then show ?thesis by (intro conjI exI [of _ "Grid gs"]) simp_all
      next
        case (Some tg)
        with a \<open>att = Some res\<close> res have g: "gs' = gs\<lparr>Grid := tg\<rparr>" "success" by simp_all
        from \<open>att = Some res\<close> res Some have "surgicalAttempts 50 level (GameMode gs = ''freeSpins'')
            (min 3 (int (length (remdups np)))) (remdups np) (Grid gs) r = Some (Some tg, r2)"
          by (simp add: att_def)
        from surgicalAttempts_shape [OF this] g show ?thesis by auto
      qed
    qed
  qed
qed

lemma ApplySurgicalLossForCascade_result:
  assumes "ApplySurgicalLossForCascade gs og np level r = Some (success, gs', r')"
  shows "(\<not> success \<longrightarrow> gs' = gs) \<and>
         (\<exists>tg. gs' = gs\<lparr>Grid := tg\<rparr> \<and> map length tg = map length (Grid gs))"
proof (cases "FindRegularConnections (Grid gs) level")
  case None
  with assms show ?thesis by (simp add: ApplySurgicalLossForCascade_def)
next
  case (Some conns)
  show ?thesis
  proof (cases "length conns = 0")
    case True
    with assms Some have "gs' = gs" "success" by (simp_all add: ApplySurgicalLossForCascade_def)
    then show ?thesis by (intro conjI exI [of _ "Grid gs"]) simp_all
  next
    case False
    define att where "att = surgicalAttempts 50 level (GameMode gs = ''freeSpins'')
        (min 4 (int (length (remdups np)))) (remdups np) (Grid gs) r"
    from assms Some False have a: "(case att of None \<Rightarrow> None
        | Some (Some testGrid, r1) \<Rightarrow> Some (True, gs\<lparr>Grid := testGrid\<rparr>, r1)
        | Some (None, r1) \<Rightarrow> Some (False, gs, r1)) = Some (success, gs', r')"
      by (simp add: ApplySurgicalLossForCascade_def att_def Let_def)
    show ?thesis
    proof (cases att)
      case None
      with a show ?thesis by simp
    next
      case (Some res)
      obtain og2 r2 where res: "res = (og2, r2)" by force
      show ?thesis
      proof (cases og2)
        case None
        with a Some res have "gs' = gs" "\<not> success" by simp_all
        then show ?thesis by (intro conjI exI [of _ "Grid gs"]) simp_all
      next
        case (Some tg)
        with a \<open>att = Some res\<close> res have g: "gs' = gs\<lparr>Grid := tg\<rparr>" "success" by simp_all
        from \<open>att = Some res\<close> res Some have "surgicalAttempts 50 level (GameMode gs = ''freeSpins'')
            (min 4 (int (length (remdups np)))) (remdups np) (Grid gs) r = Some (Some tg, r2)"
          by (simp add: att_def)
        from surgicalAttempts_shape [OF this] g show ?thesis by auto
      qed
    qed
  qed
qed

section \<open>Stage progress and level advancement\<close>

lemma ProcessStageClearedHandler_reconcile_state:
  assumes "ProcessStageClearedHandler_reconcile sv req gs og scs np conns tw r =
             Inr (gs3, conns', tw', bypassed, r2)"
  shows "\<exists>tg. gs3 = gs\<lparr>Grid := tg\<rparr> \<and> map length tg = map length (Grid gs)"
proof -
  have same: "\<exists>tg. gs = gs\<lparr>Grid := tg\<rparr> \<and> map length tg = map length (Grid gs)"
    by (intro exI [of _ "Grid gs"]) simp
  show ?thesis
  proof (cases "length conns > 0")
    case False
    with assms have "gs3 = gs" by (simp add: ProcessStageClearedHandler_reconcile_def)
    with same show ?thesis by simp
  next
    case True
    show ?thesis
    proof (cases "askOutcome sv req gs tw")
      case (Inl e)
      with assms True show ?thesis by (simp add: ProcessStageClearedHandler_reconcile_def)
    next
      case (Inr pref)
      show ?thesis
      proof (cases "pref = ''loss''")
        case False
        with assms True Inr have "gs3 = gs" by (simp add: ProcessStageClearedHandler_reconcile_def)
        with same show ?thesis by simp
      next
        case loss: True
        show ?thesis
        proof (cases "ApplySurgicalLoss gs og scs (CurrentLevel gs) r np")
          case None
          with assms True Inr loss show ?thesis
            by (simp add: ProcessStageClearedHandler_reconcile_def)
        next
          case (Some res)
          obtain success gs1 r1 where res: "res = (success, gs1, r1)" by (cases res) auto
          with assms True Inr loss Some have "gs3 = gs1"
            by (simp add: ProcessStageClearedHandler_reconcile_def split: if_splits)
          with ApplySurgicalLoss_result [of gs og scs "CurrentLevel gs" r np success gs1 r1] Some res
          show ?thesis by simp
        qed
      qed
    qed
  qed
qed

lemma ProcessStageClearedHandler_finish_state:
  assumes "ProcessStageClearedHandler_finish sv req og scs oldLevel gs1 np r1 = Succeeded resp"
  shows "StageProgress (pr_GameState resp) = StageProgress gs1 \<and>
         CurrentLevel (pr_GameState resp) = CurrentLevel gs1 \<and>
         GridSize (pr_GameState resp) = GridSize gs1 \<and>
         map length (Grid (pr_GameState resp)) = map length (Grid gs1) \<and>
         \<not> pr_LevelAdvanced resp \<and> pr_OldLevel resp = oldLevel \<and> pr_NewLevel resp = oldLevel"
proof (cases "FindRegularConnections (Grid gs1) (CurrentLevel gs1)")
  case None
  with assms show ?thesis by (simp add: ProcessStageClearedHandler_finish_def)
next
  case (Some found)
  obtain conns tw where pc: "payConnections (gs1\<lparr>StageClearedSymbols := []\<rparr>) found = (conns, tw)"
    by force
  show ?thesis
  proof (cases "ProcessStageClearedHandler_reconcile sv req (gs1\<lparr>StageClearedSymbols := []\<rparr>)
                  og scs np conns tw r1")
    case (Inl reply)
    with assms Some pc have "reply = Succeeded resp"
      by (simp add: ProcessStageClearedHandler_finish_def)
    with Inl show ?thesis
      by (auto simp: ProcessStageClearedHandler_reconcile_def split: if_splits sum.splits option.splits)
  next
    case (Inr res)
    obtain gs3 conns' tw' bypassed r2 where res: "res = (gs3, conns', tw', bypassed, r2)"
      by (cases res) auto
    from ProcessStageClearedHandler_reconcile_state [OF Inr [unfolded res]] obtain tg where
      tg: "gs3 = gs1\<lparr>StageClearedSymbols := [], Grid := tg\<rparr>" "map length tg = map length (Grid gs1)"
      by auto
    from assms Some pc Inr res have "resp =
        \<lparr>pr_Status = ''success'', pr_Message = [],
         pr_GameState = gs3\<lparr>TotalWin := tw', LastConnections := conns',
                    Cascading := (length conns' > 0),
                    CascadeCount := (if length conns' > 0 then 1 else 0)\<rparr>,
         pr_StageClearedCount = int (length scs), pr_LevelAdvanced = False,
         pr_OldLevel = oldLevel, pr_NewLevel = oldLevel,
         pr_Connections = conns', pr_TotalCost = 0\<rparr>"
      by (simp add: ProcessStageClearedHandler_finish_def)
    with tg show ?thesis by simp
  qed
qed

lemma ProcessStageClearedHandler_advance_cases:
  assumes sq: "squareGrid n (Grid gs)"
    and s_def: "s = wrap64 (StageProgress gs + int (length scs))"
  shows "\<exists>removed grid np r1.
           RemoveStageClearedSymbolsSurgical (Grid gs) scs = Some removed \<and>
           ApplyGravitySurgical removed scs (CurrentLevel gs) r (GameMode gs = ''freeSpins'') =
             Some (grid, np, r1) \<and>
           squareGrid n grid \<and>
           ProcessStageClearedHandler_advance gs scs r =
             (if 15 \<le> s then
                Inl (Succeeded
                  \<lparr>pr_Status = ''success'', pr_Message = [],
                   pr_GameState = gs\<lparr>CurrentLevel := AdvanceLevel (CurrentLevel gs),
                                    GridSize := GetGridSize (AdvanceLevel (CurrentLevel gs)),
                                    StageProgress := s - 15,
                                    Grid := fst (GenerateGrid (AdvanceLevel (CurrentLevel gs)) r1 False),
                                    StageClearedSymbols := []\<rparr>,
                   pr_StageClearedCount = int (length scs), pr_LevelAdvanced = True,
                   pr_OldLevel = CurrentLevel gs,
                   pr_NewLevel = AdvanceLevel (CurrentLevel gs),
                   pr_Connections = [], pr_TotalCost = 0\<rparr>)
              else Inr (gs\<lparr>Grid := grid, StageProgress := s\<rparr>, np, r1))"
proof -
  from RemoveStageClearedSymbolsSurgical_total [OF sq] obtain removed where
    rm: "RemoveStageClearedSymbolsSurgical (Grid gs) scs = Some removed" by blast
  have sqr: "squareGrid n removed"
    using squareGrid_shape [OF RemoveStageClearedSymbolsSurgical_shape [OF rm] sq] .
  from ApplyGravitySurgical_total [OF sqr] obtain grid np r1 where
    gr: "ApplyGravitySurgical removed scs (CurrentLevel gs) r (GameMode gs = ''freeSpins'') =
           Some (grid, np, r1)" by blast
  have sqg: "squareGrid n grid"
    using squareGrid_shape [OF ApplyGravitySurgical_shape [OF gr] sqr] .
  have "ProcessStageClearedHandler_advance gs scs r =
             (if 15 \<le> s then
                Inl (Succeeded
                  \<lparr>pr_Status = ''success'', pr_Message = [],
                   pr_GameState = gs\<lparr>CurrentLevel := AdvanceLevel (CurrentLevel gs),
                                    GridSize := GetGridSize (AdvanceLevel (CurrentLevel gs)),
                                    StageProgress := s - 15,
                                    Grid := fst (GenerateGrid (AdvanceLevel (CurrentLevel gs)) r1 False),
                                    StageClearedSymbols := []\<rparr>,
                   pr_StageClearedCount = int (length scs), pr_LevelAdvanced = True,
                   pr_OldLevel = CurrentLevel gs,
                   pr_NewLevel = AdvanceLevel (CurrentLevel gs),
                   pr_Connections = [], pr_TotalCost = 0\<rparr>)
              else Inr (gs\<lparr>Grid := grid, StageProgress := s\<rparr>, np, r1))"
    by (simp add: ProcessStageClearedHandler_advance_def rm gr Let_def s_def
        StageProgressTarget_def UpdateGameStateForLevel_def split: prod.splits)
  with rm gr sqg show ?thesis by blast
qed

lemma ProcessStageClearedHandler_unfold:
  assumes valid: "validateRequest (ClientID req) (GameID req) (PlayerID req) (BetID req)
                    (Bet_Amount (req_GameState req)) = None"
    and dims: "ValidateGridDimensions (Grid (req_GameState req)) (CurrentLevel (req_GameState req))"
    and found: "(if length (StageClearedSymbols (req_GameState req)) = 0
                 then FindStageClearedSymbols (Grid (req_GameState req))
                        (CurrentLevel (req_GameState req))
                 else Some (StageClearedSymbols (req_GameState req))) = Some found"
  shows "ProcessStageClearedHandler sv r req =
           (case ProcessStageClearedHandler_advance (req_GameState req) found r of
              Inl reply \<Rightarrow> reply
            | Inr (gs1, newPositions, r1) \<Rightarrow>
                ProcessStageClearedHandler_finish sv req (Grid (req_GameState req)) found
                  (CurrentLevel (req_GameState req)) gs1 newPositions r1)"
  unfolding ProcessStageClearedHandler_def Let_def
  by (simp only: valid dims found option.case if_False not_True_eq_False simp_thms)

text \<open>
  C3: let \<open>p\<close> be the stage progress of the request, \<open>f\<close> the number of stage-cleared
  symbols it processes and \<open>s\<close> their sum as Go computes it (64-bit; equal to \<open>p + f\<close>
  whenever that fits). For every valid request, if \<open>s \<ge> 15\<close> the handler succeeds
  with progress \<open>s - 15\<close>, the level advanced cyclically (1 to 2, 2 to 3, 3 to 1), the
  grid regenerated at the new level's dimension, and \<open>levelAdvanced\<close> reported with the
  old and new level; if \<open>s < 15\<close> every successful response keeps the level and the grid
  dimension and has progress \<open>s\<close>.
\<close>

theorem ProcessStageClearedHandler_overflow_law:
  assumes valid: "validateRequest (ClientID req) (GameID req) (PlayerID req) (BetID req)
                    (Bet_Amount (req_GameState req)) = None"
    and dims: "ValidateGridDimensions (Grid (req_GameState req)) (CurrentLevel (req_GameState req))"
    and found: "(if length (StageClearedSymbols (req_GameState req)) = 0
                 then FindStageClearedSymbols (Grid (req_GameState req))
                        (CurrentLevel (req_GameState req))
                 else Some (StageClearedSymbols (req_GameState req))) = Some found"
    and s: "s = wrap64 (StageProgress (req_GameState req) + int (length found))"
  shows "(15 \<le> s \<longrightarrow>
           (\<exists>resp. ProcessStageClearedHandler sv r req = Succeeded resp \<and>
              StageProgress (pr_GameState resp) = s - 15 \<and>
              CurrentLevel (pr_GameState resp) = AdvanceLevel (CurrentLevel (req_GameState req)) \<and>
              GridSize (pr_GameState resp) =
                GetGridSize (AdvanceLevel (CurrentLevel (req_GameState req))) \<and>
              ValidateGridDimensions (Grid (pr_GameState resp))
                (AdvanceLevel (CurrentLevel (req_GameState req))) \<and>
              pr_LevelAdvanced resp \<and>
              pr_OldLevel resp = CurrentLevel (req_GameState req) \<and>
              pr_NewLevel resp = AdvanceLevel (CurrentLevel (req_GameState req)))) \<and>
         (s < 15 \<longrightarrow>
           (\<forall>resp. ProcessStageClearedHandler sv r req = Succeeded resp \<longrightarrow>
              StageProgress (pr_GameState resp) = s \<and>
              CurrentLevel (pr_GameState resp) = CurrentLevel (req_GameState req) \<and>
              GridSize (pr_GameState resp) = GridSize (req_GameState req) \<and>
              ValidateGridDimensions (Grid (pr_GameState resp))
                (CurrentLevel (req_GameState req)) \<and>
              \<not> pr_LevelAdvanced resp)) \<and>
         AdvanceLevel 1 = 2 \<and> AdvanceLevel 2 = 3 \<and> AdvanceLevel 3 = 1 \<and>
         (- (2 ^ 63) \<le> StageProgress (req_GameState req) + int (length found) \<and>
          StageProgress (req_GameState req) + int (length found) < 2 ^ 63 \<longrightarrow>
            s = StageProgress (req_GameState req) + int (length found))"
proof -
  define gs where "gs = req_GameState req"
  define n where "n = nat (GetGridSize (CurrentLevel gs))"
  have sq: "squareGrid n (Grid gs)"
    using dims by (simp add: ValidateGridDimensions_square gs_def n_def)
  from ProcessStageClearedHandler_advance_cases [OF sq, of s found r] s
  obtain removed grid np r1 where
    sqg: "squareGrid n grid" and
    adv: "ProcessStageClearedHandler_advance gs found r =
             (if 15 \<le> s then
                Inl (Succeeded
                  \<lparr>pr_Status = ''success'', pr_Message = [],
                   pr_GameState = gs\<lparr>CurrentLevel := AdvanceLevel (CurrentLevel gs),
                                    GridSize := GetGridSize (AdvanceLevel (CurrentLevel gs)),
                                    StageProgress := s - 15,
                                    Grid := fst (GenerateGrid (AdvanceLevel (CurrentLevel gs)) r1 False),
                                    StageClearedSymbols := []\<rparr>,
                   pr_StageClearedCount = int (length found), pr_LevelAdvanced = True,
                   pr_OldLevel = CurrentLevel gs,
                   pr_NewLevel = AdvanceLevel (CurrentLevel gs),
                   pr_Connections = [], pr_TotalCost = 0\<rparr>)
              else Inr (gs\<lparr>Grid := grid, StageProgress := s\<rparr>, np, r1))"
    unfolding gs_def by blast
  note unf = ProcessStageClearedHandler_unfold [OF valid dims found, of sv r, folded gs_def]
  have newsq: "ValidateGridDimensions (fst (GenerateGrid (AdvanceLevel (CurrentLevel gs)) r1 False))
      (AdvanceLevel (CurrentLevel gs))"
    unfolding ValidateGridDimensions_square
    by (rule GenerateGrid_square [of _ r1 False _ "snd (GenerateGrid (AdvanceLevel (CurrentLevel gs)) r1 False)"]) simp
  have A: "\<exists>resp. ProcessStageClearedHandler sv r req = Succeeded resp \<and>
              StageProgress (pr_GameState resp) = s - 15 \<and>
              CurrentLevel (pr_GameState resp) = AdvanceLevel (CurrentLevel gs) \<and>
              GridSize (pr_GameState resp) = GetGridSize (AdvanceLevel (CurrentLevel gs)) \<and>
              ValidateGridDimensions (Grid (pr_GameState resp)) (AdvanceLevel (CurrentLevel gs)) \<and>
              pr_LevelAdvanced resp \<and>
              pr_OldLevel resp = CurrentLevel gs \<and>
              pr_NewLevel resp = AdvanceLevel (CurrentLevel gs)" if "15 \<le> s"
    using that newsq by (simp add: unf adv)
  have B: "StageProgress (pr_GameState resp) = s \<and>
              CurrentLevel (pr_GameState resp) = CurrentLevel gs \<and>
              GridSize (pr_GameState resp) = GridSize gs \<and>
              ValidateGridDimensions (Grid (pr_GameState resp)) (CurrentLevel gs) \<and>
              \<not> pr_LevelAdvanced resp"
    if "s < 15" and ok: "ProcessStageClearedHandler sv r req = Succeeded resp" for resp
  proof -
    from that have fin: "ProcessStageClearedHandler_finish sv req (Grid gs) found (CurrentLevel gs)
        (gs\<lparr>Grid := grid, StageProgress := s\<rparr>) np r1 = Succeeded resp"
      by (simp add: unf adv)
    from ProcessStageClearedHandler_finish_state [OF fin]
    have st: "StageProgress (pr_GameState resp) = s" "CurrentLevel (pr_GameState resp) = CurrentLevel gs"
      "GridSize (pr_GameState resp) = GridSize gs"
      "map length (Grid (pr_GameState resp)) = map length grid" "\<not> pr_LevelAdvanced resp"
      by simp_all
    from squareGrid_shape [OF st(4) sqg]
    have "ValidateGridDimensions (Grid (pr_GameState resp)) (CurrentLevel gs)"
      by (simp add: ValidateGridDimensions_square n_def)
    with st show ?thesis by simp
  qed
  have C: "s = StageProgress gs + int (length found)"
    if "- (2 ^ 63) \<le> StageProgress gs + int (length found)"
       "StageProgress gs + int (length found) < 2 ^ 63"
    using that s by (simp add: wrap64_id gs_def)
  from A B C show ?thesis
    unfolding gs_def by (simp add: AdvanceLevel_cycle)
qed

lemma isSucceeded_iff: "isSucceeded reply \<longleftrightarrow> (\<exists>resp. reply = Succeeded resp)"
  by (cases reply) (simp_all add: isSucceeded_def)

lemma exampleStage_valid:
  "validateRequest (ClientID (exampleRequest (exampleStageState p)))
     (GameID (exampleRequest (exampleStageState p)))
     (PlayerID (exampleRequest (exampleStageState p)))
     (BetID (exampleRequest (exampleStageState p)))
     (Bet_Amount (req_GameState (exampleRequest (exampleStageState p)))) = None"
  by (simp add: exampleRequest_def exampleStageState_def validateRequest_def isValidBetAmount_def)

lemma exampleStage_dims:
  "ValidateGridDimensions (Grid (req_GameState (exampleRequest (exampleStageState p))))
     (CurrentLevel (req_GameState (exampleRequest (exampleStageState p))))"
  by (simp add: exampleRequest_def exampleStageState_def ValidateGridDimensions_def
      exampleStageGrid_def GetGridSize_def)

lemma exampleStage_found:
  "(if length (StageClearedSymbols (req_GameState (exampleRequest (exampleStageState p)))) = 0
    then FindStageClearedSymbols (Grid (req_GameState (exampleRequest (exampleStageState p))))
           (CurrentLevel (req_GameState (exampleRequest (exampleStageState p))))
    else Some (StageClearedSymbols (req_GameState (exampleRequest (exampleStageState p))))) =
   Some exampleStageFound"
proof -
  have "FindStageClearedSymbols exampleStageGrid Level1 = Some exampleStageFound" by code_simp
  then show ?thesis by (simp add: exampleRequest_def exampleStageState_def)
qed

lemma exampleStage_sum:
  "p = 13 \<or> p = 5 \<Longrightarrow>
   p + 4 = wrap64 (StageProgress (req_GameState (exampleRequest (exampleStageState p))) +
                   int (length exampleStageFound))"
  by (auto simp: exampleRequest_def exampleStageState_def exampleStageFound_def wrap64_def)

theorem ProcessStageClearedHandler_overflow_law_witness:
  "validateRequest ''client'' ''birdsparty'' ''player'' ''bet'' (1/10) = None \<and>
   ValidateGridDimensions exampleStageGrid Level1 \<and>
   FindStageClearedSymbols exampleStageGrid Level1 = Some exampleStageFound \<and>
   wrap64 (13 + int (length exampleStageFound)) = 17 \<and>
   wrap64 (5 + int (length exampleStageFound)) = 9 \<and>
   (\<exists>resp. ProcessStageClearedHandler exampleServices exampleRand
              (exampleRequest (exampleStageState 13)) = Succeeded resp \<and>
      StageProgress (pr_GameState resp) = 2 \<and> CurrentLevel (pr_GameState resp) = 2 \<and>
      GridSize (pr_GameState resp) = 5 \<and>
      ValidateGridDimensions (Grid (pr_GameState resp)) 2 \<and>
      pr_LevelAdvanced resp \<and> pr_OldLevel resp = 1 \<and> pr_NewLevel resp = 2) \<and>
   (\<exists>resp. ProcessStageClearedHandler exampleServices exampleRand
              (exampleRequest (exampleStageState 5)) = Succeeded resp \<and>
      StageProgress (pr_GameState resp) = 9 \<and> CurrentLevel (pr_GameState resp) = 1 \<and>
      GridSize (pr_GameState resp) = 4 \<and>
      ValidateGridDimensions (Grid (pr_GameState resp)) 1 \<and>
      \<not> pr_LevelAdvanced resp)"
proof -
  have h1: "validateRequest ''client'' ''birdsparty'' ''player'' ''bet'' (1/10) = None"
    by code_simp
  have h2: "ValidateGridDimensions exampleStageGrid Level1" by code_simp
  have h3: "FindStageClearedSymbols exampleStageGrid Level1 = Some exampleStageFound" by code_simp
  have h4: "wrap64 (13 + int (length exampleStageFound)) = 17" by code_simp
  have h5: "wrap64 (5 + int (length exampleStageFound)) = 9" by code_simp
  have sel: "CurrentLevel (req_GameState (exampleRequest (exampleStageState p))) = 1"
    "GridSize (req_GameState (exampleRequest (exampleStageState p))) = 4" for p
    by (simp_all add: exampleRequest_def exampleStageState_def Level_defs)
  note a = ProcessStageClearedHandler_overflow_law
    [OF exampleStage_valid exampleStage_dims exampleStage_found exampleStage_sum,
     of 13 exampleServices exampleRand]
  from a have A: "\<exists>resp. ProcessStageClearedHandler exampleServices exampleRand
              (exampleRequest (exampleStageState 13)) = Succeeded resp \<and>
      StageProgress (pr_GameState resp) = 2 \<and> CurrentLevel (pr_GameState resp) = 2 \<and>
      GridSize (pr_GameState resp) = 5 \<and>
      ValidateGridDimensions (Grid (pr_GameState resp)) 2 \<and>
      pr_LevelAdvanced resp \<and> pr_OldLevel resp = 1 \<and> pr_NewLevel resp = 2"
    by (simp add: sel AdvanceLevel_cycle GetGridSize_def Level_defs)
  have "isSucceeded (ProcessStageClearedHandler exampleServices exampleRand
      (exampleRequest (exampleStageState 5)))" by code_simp
  then obtain resp where ok: "ProcessStageClearedHandler exampleServices exampleRand
      (exampleRequest (exampleStageState 5)) = Succeeded resp"
    by (auto simp: isSucceeded_iff)
  note b = ProcessStageClearedHandler_overflow_law
    [OF exampleStage_valid exampleStage_dims exampleStage_found exampleStage_sum,
     of 5 exampleServices exampleRand]
  from b ok have B: "\<exists>resp. ProcessStageClearedHandler exampleServices exampleRand
              (exampleRequest (exampleStageState 5)) = Succeeded resp \<and>
      StageProgress (pr_GameState resp) = 9 \<and> CurrentLevel (pr_GameState resp) = 1 \<and>
      GridSize (pr_GameState resp) = 4 \<and>
      ValidateGridDimensions (Grid (pr_GameState resp)) 1 \<and>
      \<not> pr_LevelAdvanced resp"
    by (simp add: sel)
  from h1 h2 h3 h4 h5 A B show ?thesis by blast
qed

section \<open>The advancing call returns at once\<close>

text \<open>
  C10: for every valid stage-cleared request whose accumulated progress reaches 15, the
  handler succeeds with one and the same response whatever the two services would
  answer (they are not consulted). The grid of that response is the output of
  \<open>GenerateGrid\<close> for the new level, drawn right after the surgical gravity; the
  response has no connections, the pending stage-cleared list is empty, and
  \<open>TotalWin\<close>, \<open>CascadeCount\<close>, \<open>LastConnections\<close> and \<open>Cascading\<close> are those of
  the request.
\<close>

theorem ProcessStageClearedHandler_advance_returns_early:
  assumes valid: "validateRequest (ClientID req) (GameID req) (PlayerID req) (BetID req)
                    (Bet_Amount (req_GameState req)) = None"
    and dims: "ValidateGridDimensions (Grid (req_GameState req)) (CurrentLevel (req_GameState req))"
    and found: "(if length (StageClearedSymbols (req_GameState req)) = 0
                 then FindStageClearedSymbols (Grid (req_GameState req))
                        (CurrentLevel (req_GameState req))
                 else Some (StageClearedSymbols (req_GameState req))) = Some found"
    and reached: "15 \<le> wrap64 (StageProgress (req_GameState req) + int (length found))"
  shows "\<exists>resp removed grid np r1.
           RemoveStageClearedSymbolsSurgical (Grid (req_GameState req)) found = Some removed \<and>
           ApplyGravitySurgical removed found (CurrentLevel (req_GameState req)) r
             (GameMode (req_GameState req) = ''freeSpins'') = Some (grid, np, r1) \<and>
           (\<forall>sv. ProcessStageClearedHandler sv r req = Succeeded resp) \<and>
           pr_Status resp = ''success'' \<and> pr_LevelAdvanced resp \<and>
           Grid (pr_GameState resp) =
             fst (GenerateGrid (AdvanceLevel (CurrentLevel (req_GameState req))) r1 False) \<and>
           pr_Connections resp = [] \<and>
           StageClearedSymbols (pr_GameState resp) = [] \<and>
           TotalWin (pr_GameState resp) = TotalWin (req_GameState req) \<and>
           CascadeCount (pr_GameState resp) = CascadeCount (req_GameState req) \<and>
           LastConnections (pr_GameState resp) = LastConnections (req_GameState req) \<and>
           Cascading (pr_GameState resp) = Cascading (req_GameState req)"
proof -
  define gs where "gs = req_GameState req"
  define n where "n = nat (GetGridSize (CurrentLevel gs))"
  define s where "s = wrap64 (StageProgress gs + int (length found))"
  have sq: "squareGrid n (Grid gs)"
    using dims by (simp add: ValidateGridDimensions_square gs_def n_def)
  from ProcessStageClearedHandler_advance_cases [OF sq s_def, of r] reached
  obtain removed grid np r1 where
    rm: "RemoveStageClearedSymbolsSurgical (Grid gs) found = Some removed" and
    gr: "ApplyGravitySurgical removed found (CurrentLevel gs) r (GameMode gs = ''freeSpins'') =
           Some (grid, np, r1)" and
    adv: "ProcessStageClearedHandler_advance gs found r =
                Inl (Succeeded
                  \<lparr>pr_Status = ''success'', pr_Message = [],
                   pr_GameState = gs\<lparr>CurrentLevel := AdvanceLevel (CurrentLevel gs),
                                    GridSize := GetGridSize (AdvanceLevel (CurrentLevel gs)),
                                    StageProgress := s - 15,
                                    Grid := fst (GenerateGrid (AdvanceLevel (CurrentLevel gs)) r1 False),
                                    StageClearedSymbols := []\<rparr>,
                   pr_StageClearedCount = int (length found), pr_LevelAdvanced = True,
                   pr_OldLevel = CurrentLevel gs,
                   pr_NewLevel = AdvanceLevel (CurrentLevel gs),
                   pr_Connections = [], pr_TotalCost = 0\<rparr>)"
    unfolding gs_def s_def by auto
  define resp where "resp =
                  \<lparr>pr_Status = ''success'', pr_Message = [],
                   pr_GameState = gs\<lparr>CurrentLevel := AdvanceLevel (CurrentLevel gs),
                                    GridSize := GetGridSize (AdvanceLevel (CurrentLevel gs)),
                                    StageProgress := s - 15,
                                    Grid := fst (GenerateGrid (AdvanceLevel (CurrentLevel gs)) r1 False),
                                    StageClearedSymbols := []\<rparr>,
                   pr_StageClearedCount = int (length found), pr_LevelAdvanced = True,
                   pr_OldLevel = CurrentLevel gs,
                   pr_NewLevel = AdvanceLevel (CurrentLevel gs),
                   pr_Connections = [], pr_TotalCost = 0\<rparr>"
  have all: "ProcessStageClearedHandler sv r req = Succeeded resp" for sv
    using ProcessStageClearedHandler_unfold [OF valid dims found, of sv r, folded gs_def]
    by (simp add: adv resp_def)
  have props: "pr_Status resp = ''success''" "pr_LevelAdvanced resp"
    "Grid (pr_GameState resp) = fst (GenerateGrid (AdvanceLevel (CurrentLevel gs)) r1 False)"
    "pr_Connections resp = []" "StageClearedSymbols (pr_GameState resp) = []"
    "TotalWin (pr_GameState resp) = TotalWin gs" "CascadeCount (pr_GameState resp) = CascadeCount gs"
    "LastConnections (pr_GameState resp) = LastConnections gs"
    "Cascading (pr_GameState resp) = Cascading gs"
    by (simp_all add: resp_def)
  from rm gr all props show ?thesis unfolding gs_def by blast
qed

theorem ProcessStageClearedHandler_advance_returns_early_witness:
  "validateRequest ''client'' ''birdsparty'' ''player'' ''bet'' (1/10) = None \<and>
   ValidateGridDimensions exampleStageGrid Level1 \<and>
   FindStageClearedSymbols exampleStageGrid Level1 = Some exampleStageFound \<and>
   15 \<le> wrap64 (13 + int (length exampleStageFound)) \<and>
   (\<exists>resp. ProcessStageClearedHandler failingServices exampleRand
              (exampleRequest (exampleStageState 13)) = Succeeded resp \<and>
      ProcessStageClearedHandler exampleServices exampleRand
              (exampleRequest (exampleStageState 13)) = Succeeded resp \<and>
      pr_Status resp = ''success'' \<and> pr_LevelAdvanced resp \<and> pr_Connections resp = [] \<and>
      StageClearedSymbols (pr_GameState resp) = [] \<and>
      TotalWin (pr_GameState resp) = 7/10 \<and> CascadeCount (pr_GameState resp) = 3)"
proof -
  have h1: "validateRequest ''client'' ''birdsparty'' ''player'' ''bet'' (1/10) = None"
    by code_simp
  have h2: "ValidateGridDimensions exampleStageGrid Level1" by code_simp
  have h3: "FindStageClearedSymbols exampleStageGrid Level1 = Some exampleStageFound" by code_simp
  have h4: "15 \<le> wrap64 (13 + int (length exampleStageFound))" by code_simp
  have r: "15 \<le> wrap64 (StageProgress (req_GameState (exampleRequest (exampleStageState 13))) +
                   int (length exampleStageFound))"
    using exampleStage_sum [of 13] by simp
  have sel: "TotalWin (req_GameState (exampleRequest (exampleStageState 13))) = 7/10"
    "CascadeCount (req_GameState (exampleRequest (exampleStageState 13))) = 3"
    by (simp_all add: exampleRequest_def exampleStageState_def)
  from ProcessStageClearedHandler_advance_returns_early
    [OF exampleStage_valid exampleStage_dims exampleStage_found r, of exampleRand]
  obtain resp where
    "\<forall>sv. ProcessStageClearedHandler sv exampleRand (exampleRequest (exampleStageState 13)) =
       Succeeded resp"
    "pr_Status resp = ''success''" "pr_LevelAdvanced resp" "pr_Connections resp = []"
    "StageClearedSymbols (pr_GameState resp) = []"
    "TotalWin (pr_GameState resp) = 7/10" "CascadeCount (pr_GameState resp) = 3"
    unfolding sel by blast
  then have "\<exists>resp. ProcessStageClearedHandler failingServices exampleRand
              (exampleRequest (exampleStageState 13)) = Succeeded resp \<and>
      ProcessStageClearedHandler exampleServices exampleRand
              (exampleRequest (exampleStageState 13)) = Succeeded resp \<and>
      pr_Status resp = ''success'' \<and> pr_LevelAdvanced resp \<and> pr_Connections resp = [] \<and>
      StageClearedSymbols (pr_GameState resp) = [] \<and>
      TotalWin (pr_GameState resp) = 7/10 \<and> CascadeCount (pr_GameState resp) = 3"
    by blast
  with h1 h2 h3 h4 show ?thesis by blast
qed

section \<open>The cascade handler, unfolded\<close>

lemma RemoveConnectionsSurgical_positions_shape:
  "RemoveConnectionsSurgical_positions g ps acc = Some (g', acc') \<Longrightarrow>
     map length g' = map length g"
proof (induction ps arbitrary: g acc)
  case Nil
  then show ?case by simp
next
  case (Cons p ps)
  then show ?case
    by (auto split: if_splits option.splits dest!: setCell_shape)
qed

lemma RemoveConnectionsSurgical_loop_shape:
  "RemoveConnectionsSurgical_loop g cs acc = Some (g', acc') \<Longrightarrow> map length g' = map length g"
proof (induction cs arbitrary: g acc)
  case Nil
  then show ?case by simp
next
  case (Cons c cs)
  then show ?case
    by (auto split: option.splits dest!: RemoveConnectionsSurgical_positions_shape)
qed

lemma RemoveConnectionsSurgical_shape:
  "RemoveConnectionsSurgical g cs = Some (g', acc') \<Longrightarrow> map length g' = map length g"
  unfolding RemoveConnectionsSurgical_def by (rule RemoveConnectionsSurgical_loop_shape)

lemma CascadeHandler_process_shape:
  assumes "CascadeHandler_process gs r = Some (gs2, found, ap, np, r1)"
  shows "gs2 = gs\<lparr>Grid := Grid gs2\<rparr> \<and> map length (Grid gs2) = map length (Grid gs)"
  using assms
  unfolding CascadeHandler_process_def Let_def
  by (auto split: if_splits option.splits prod.splits
      dest!: RemoveConnectionsSurgical_shape ApplyGravitySurgicalForCascade_shape)

lemma CascadeHandler_unfold:
  assumes valid: "validateRequest (ClientID req) (GameID req) (PlayerID req) (BetID req)
                    (Bet_Amount (req_GameState req)) = None"
    and dims: "ValidateGridDimensions (Grid (req_GameState req)) (CurrentLevel (req_GameState req))"
  shows "CascadeHandler sv r req =
           (case CascadeHandler_process
                   ((req_GameState req)\<lparr>CascadeCount := wrap64 (CascadeCount (req_GameState req) + 1)\<rparr>) r of
              None \<Rightarrow> Panicked
            | Some (gs2, found, affectedPositions, newPositions, r1) \<Rightarrow>
                CascadeHandler_finish sv req (Grid (req_GameState req)) gs2 found newPositions r1)"
  unfolding CascadeHandler_def Let_def
  by (simp add: valid dims split: option.splits prod.splits)

section \<open>Reconciliation that runs out of attempts\<close>

lemma ApplySurgicalLoss_exhausted:
  assumes "FindRegularConnections (Grid gs) level = Some current" "0 < length current"
    and "surgicalAttempts 50 level (GameMode gs = ''freeSpins'')
           (min 3 (int (length (remdups np)))) (remdups np) (Grid gs) r = Some (None, r')"
  shows "ApplySurgicalLoss gs og scs level r np = Some (False, gs, r')"
  using assms by (simp add: ApplySurgicalLoss_def Let_def)

lemma ApplySurgicalLossForCascade_exhausted:
  assumes "FindRegularConnections (Grid gs) level = Some current" "0 < length current"
    and "surgicalAttempts 50 level (GameMode gs = ''freeSpins'')
           (min 4 (int (length (remdups np)))) (remdups np) (Grid gs) r = Some (None, r')"
  shows "ApplySurgicalLossForCascade gs og np level r = Some (False, gs, r')"
  using assms by (simp add: ApplySurgicalLossForCascade_def Let_def)

lemma payConnections_length: "length (fst (payConnections gs cs)) = length cs"
  by (simp add: payConnections_def Let_def)

lemma ProcessStageClearedHandler_finish_exhausted:
  assumes gs: "gs = gs1\<lparr>StageClearedSymbols := []\<rparr>"
    and cur: "FindRegularConnections (Grid gs) (CurrentLevel gs) = Some current"
    and ne: "0 < length current"
    and paid: "payConnections gs current = (paid, tw)"
    and loss: "askOutcome sv req gs tw = Inr ''loss''"
    and ex: "surgicalAttempts 50 (CurrentLevel gs) (GameMode gs = ''freeSpins'')
           (min 3 (int (length (remdups np)))) (remdups np) (Grid gs) r1 = Some (None, r')"
  shows "ProcessStageClearedHandler_reconcile sv req gs og scs np paid tw r1 =
           Inr (gs, paid, tw, True, r') \<and>
         ProcessStageClearedHandler_finish sv req og scs oldLevel gs1 np r1 =
           Succeeded
             \<lparr>pr_Status = ''success'', pr_Message = [],
              pr_GameState = gs\<lparr>TotalWin := tw, LastConnections := paid,
                                Cascading := True, CascadeCount := 1\<rparr>,
              pr_StageClearedCount = int (length scs), pr_LevelAdvanced = False,
              pr_OldLevel = oldLevel, pr_NewLevel = oldLevel,
              pr_Connections = paid, pr_TotalCost = 0\<rparr>"
proof -
  have lp: "0 < length paid" using payConnections_length [of gs current] paid ne by simp
  have asl: "ApplySurgicalLoss gs og scs (CurrentLevel gs) r1 np = Some (False, gs, r')"
    by (rule ApplySurgicalLoss_exhausted [OF cur ne ex])
  have rec: "ProcessStageClearedHandler_reconcile sv req gs og scs np paid tw r1 =
           Inr (gs, paid, tw, True, r')"
    using lp by (simp add: ProcessStageClearedHandler_reconcile_def loss asl)
  have "ProcessStageClearedHandler_finish sv req og scs oldLevel gs1 np r1 =
           Succeeded
             \<lparr>pr_Status = ''success'', pr_Message = [],
              pr_GameState = gs\<lparr>TotalWin := tw, LastConnections := paid,
                                Cascading := True, CascadeCount := 1\<rparr>,
              pr_StageClearedCount = int (length scs), pr_LevelAdvanced = False,
              pr_OldLevel = oldLevel, pr_NewLevel = oldLevel,
              pr_Connections = paid, pr_TotalCost = 0\<rparr>"
    unfolding ProcessStageClearedHandler_finish_def Let_def gs [symmetric]
    using lp by (simp add: cur paid rec)
  with rec show ?thesis by simp
qed

lemma CascadeHandler_finish_exhausted:
  assumes cur: "FindRegularConnections (Grid gs) (CurrentLevel gs) = Some current"
    and ne: "0 < length current"
    and nf: "0 < length found"
    and paid: "payConnections gs found = (paid, tw)"
    and loss: "askOutcome sv req gs tw = Inr ''loss''"
    and ex: "surgicalAttempts 50 (CurrentLevel gs) (GameMode gs = ''freeSpins'')
           (min 4 (int (length (remdups np)))) (remdups np) (Grid gs) r1 = Some (None, r')"
    and sym: "FindStageClearedSymbols (Grid gs) (CurrentLevel gs) = Some symbols"
  shows "CascadeHandler_reconcile sv req gs og np paid tw r1 = Inr (gs, paid, tw, True, r') \<and>
         CascadeHandler_finish sv req og gs found np r1 =
           Succeeded
             \<lparr>cr_Status = ''success'', cr_Message = [],
              cr_GameState = gs\<lparr>StageClearedSymbols := symbols, TotalWin := tw,
                                LastConnections := paid, Cascading := True\<rparr>,
              cr_Connections = paid, cr_StageClearedSymbols = symbols,
              cr_HasStageCleared = (0 < length symbols), cr_TotalCost = 0\<rparr>"
proof -
  have lp: "0 < length paid" using payConnections_length [of gs found] paid nf by simp
  have asl: "ApplySurgicalLossForCascade gs og np (CurrentLevel gs) r1 = Some (False, gs, r')"
    by (rule ApplySurgicalLossForCascade_exhausted [OF cur ne ex])
  have rec: "CascadeHandler_reconcile sv req gs og np paid tw r1 = Inr (gs, paid, tw, True, r')"
    using lp by (simp add: CascadeHandler_reconcile_def loss asl)
  have "CascadeHandler_finish sv req og gs found np r1 =
           Succeeded
             \<lparr>cr_Status = ''success'', cr_Message = [],
              cr_GameState = gs\<lparr>StageClearedSymbols := symbols, TotalWin := tw,
                                LastConnections := paid, Cascading := True\<rparr>,
              cr_Connections = paid, cr_StageClearedSymbols = symbols,
              cr_HasStageCleared = (0 < length symbols), cr_TotalCost = 0\<rparr>"
    unfolding CascadeHandler_finish_def Let_def
    using lp by (simp add: paid rec sym)
  with rec show ?thesis by simp
qed

text \<open>
  C6: for every valid stage-cleared or cascade request, if the step has connections, the
  RNG service prefers a loss and none of the 50 attempts of the surgical loss leaves the
  grid without a connection, then the surgical loss reports failure and returns the game
  state as it was, the handler's \<open>rngBypassed\<close> flag is set, and the handler answers
  with status \<open>success\<close>: the grid, the connections and the total winnings in the
  response are the ones computed before the surgical loss was tried.
\<close>

theorem reconciliation_exhausted_fails_closed:
  assumes valid: "validateRequest (ClientID req) (GameID req) (PlayerID req) (BetID req)
                    (Bet_Amount (req_GameState req)) = None"
    and dims: "ValidateGridDimensions (Grid (req_GameState req)) (CurrentLevel (req_GameState req))"
  shows
    "((if length (StageClearedSymbols (req_GameState req)) = 0
       then FindStageClearedSymbols (Grid (req_GameState req)) (CurrentLevel (req_GameState req))
       else Some (StageClearedSymbols (req_GameState req))) = Some scs \<and>
      ProcessStageClearedHandler_advance (req_GameState req) scs r = Inr (gs1, np, r1) \<and>
      FindRegularConnections (Grid gs1) (CurrentLevel gs1) = Some current \<and>
      0 < length current \<and>
      payConnections (gs1\<lparr>StageClearedSymbols := []\<rparr>) current = (paid, tw) \<and>
      askOutcome sv req (gs1\<lparr>StageClearedSymbols := []\<rparr>) tw = Inr ''loss'' \<and>
      surgicalAttempts 50 (CurrentLevel gs1) (GameMode gs1 = ''freeSpins'')
        (min 3 (int (length (remdups np)))) (remdups np) (Grid gs1) r1 = Some (None, r')
      \<longrightarrow>
      ApplySurgicalLoss (gs1\<lparr>StageClearedSymbols := []\<rparr>) (Grid (req_GameState req)) scs
        (CurrentLevel gs1) r1 np = Some (False, gs1\<lparr>StageClearedSymbols := []\<rparr>, r') \<and>
      ProcessStageClearedHandler_reconcile sv req (gs1\<lparr>StageClearedSymbols := []\<rparr>)
        (Grid (req_GameState req)) scs np paid tw r1 =
          Inr (gs1\<lparr>StageClearedSymbols := []\<rparr>, paid, tw, True, r') \<and>
      ProcessStageClearedHandler sv r req =
        Succeeded
          \<lparr>pr_Status = ''success'', pr_Message = [],
           pr_GameState = gs1\<lparr>StageClearedSymbols := [], TotalWin := tw,
                              LastConnections := paid, Cascading := True, CascadeCount := 1\<rparr>,
           pr_StageClearedCount = int (length scs), pr_LevelAdvanced = False,
           pr_OldLevel = CurrentLevel (req_GameState req),
           pr_NewLevel = CurrentLevel (req_GameState req),
           pr_Connections = paid, pr_TotalCost = 0\<rparr>) \<and>
     (CascadeHandler_process
        ((req_GameState req)\<lparr>CascadeCount := wrap64 (CascadeCount (req_GameState req) + 1)\<rparr>) r =
          Some (gs2, found, ap, cnp, cr1) \<and>
      0 < length found \<and>
      FindRegularConnections (Grid gs2) (CurrentLevel gs2) = Some ccurrent \<and>
      0 < length ccurrent \<and>
      payConnections gs2 found = (cpaid, ctw) \<and>
      askOutcome sv req gs2 ctw = Inr ''loss'' \<and>
      surgicalAttempts 50 (CurrentLevel gs2) (GameMode gs2 = ''freeSpins'')
        (min 4 (int (length (remdups cnp)))) (remdups cnp) (Grid gs2) cr1 = Some (None, cr')
      \<longrightarrow>
      ApplySurgicalLossForCascade gs2 (Grid (req_GameState req)) cnp (CurrentLevel gs2) cr1 =
        Some (False, gs2, cr') \<and>
      CascadeHandler_reconcile sv req gs2 (Grid (req_GameState req)) cnp cpaid ctw cr1 =
        Inr (gs2, cpaid, ctw, True, cr') \<and>
      (\<exists>symbols. FindStageClearedSymbols (Grid gs2) (CurrentLevel gs2) = Some symbols \<and>
         CascadeHandler sv r req =
           Succeeded
             \<lparr>cr_Status = ''success'', cr_Message = [],
              cr_GameState = gs2\<lparr>StageClearedSymbols := symbols, TotalWin := ctw,
                                 LastConnections := cpaid, Cascading := True\<rparr>,
              cr_Connections = cpaid, cr_StageClearedSymbols = symbols,
              cr_HasStageCleared = (0 < length symbols), cr_TotalCost = 0\<rparr>))"
proof (intro conjI impI)
  assume h: "(if length (StageClearedSymbols (req_GameState req)) = 0
       then FindStageClearedSymbols (Grid (req_GameState req)) (CurrentLevel (req_GameState req))
       else Some (StageClearedSymbols (req_GameState req))) = Some scs \<and>
      ProcessStageClearedHandler_advance (req_GameState req) scs r = Inr (gs1, np, r1) \<and>
      FindRegularConnections (Grid gs1) (CurrentLevel gs1) = Some current \<and>
      0 < length current \<and>
      payConnections (gs1\<lparr>StageClearedSymbols := []\<rparr>) current = (paid, tw) \<and>
      askOutcome sv req (gs1\<lparr>StageClearedSymbols := []\<rparr>) tw = Inr ''loss'' \<and>
      surgicalAttempts 50 (CurrentLevel gs1) (GameMode gs1 = ''freeSpins'')
        (min 3 (int (length (remdups np)))) (remdups np) (Grid gs1) r1 = Some (None, r')"
  define gs where "gs = gs1\<lparr>StageClearedSymbols := []\<rparr>"
  have sel: "Grid gs = Grid gs1" "CurrentLevel gs = CurrentLevel gs1" "GameMode gs = GameMode gs1"
    by (simp_all add: gs_def)
  from h have found: "(if length (StageClearedSymbols (req_GameState req)) = 0
       then FindStageClearedSymbols (Grid (req_GameState req)) (CurrentLevel (req_GameState req))
       else Some (StageClearedSymbols (req_GameState req))) = Some scs"
    and adv: "ProcessStageClearedHandler_advance (req_GameState req) scs r = Inr (gs1, np, r1)"
    and cur: "FindRegularConnections (Grid gs) (CurrentLevel gs) = Some current"
    and ne: "0 < length current"
    and paid: "payConnections gs current = (paid, tw)"
    and loss: "askOutcome sv req gs tw = Inr ''loss''"
    and ex: "surgicalAttempts 50 (CurrentLevel gs) (GameMode gs = ''freeSpins'')
        (min 3 (int (length (remdups np)))) (remdups np) (Grid gs) r1 = Some (None, r')"
    by (simp_all add: gs_def)
  note fin = ProcessStageClearedHandler_finish_exhausted
    [OF gs_def cur ne paid loss ex, of "Grid (req_GameState req)" scs "CurrentLevel (req_GameState req)"]
  show "ApplySurgicalLoss (gs1\<lparr>StageClearedSymbols := []\<rparr>) (Grid (req_GameState req)) scs
        (CurrentLevel gs1) r1 np = Some (False, gs1\<lparr>StageClearedSymbols := []\<rparr>, r')"
    using ApplySurgicalLoss_exhausted [OF cur ne ex] by (simp add: gs_def)
  show "ProcessStageClearedHandler_reconcile sv req (gs1\<lparr>StageClearedSymbols := []\<rparr>)
        (Grid (req_GameState req)) scs np paid tw r1 =
          Inr (gs1\<lparr>StageClearedSymbols := []\<rparr>, paid, tw, True, r')"
    using fin by (simp add: gs_def)
  show "ProcessStageClearedHandler sv r req =
        Succeeded
          \<lparr>pr_Status = ''success'', pr_Message = [],
           pr_GameState = gs1\<lparr>StageClearedSymbols := [], TotalWin := tw,
                              LastConnections := paid, Cascading := True, CascadeCount := 1\<rparr>,
           pr_StageClearedCount = int (length scs), pr_LevelAdvanced = False,
           pr_OldLevel = CurrentLevel (req_GameState req),
           pr_NewLevel = CurrentLevel (req_GameState req),
           pr_Connections = paid, pr_TotalCost = 0\<rparr>"
    using fin by (simp add: ProcessStageClearedHandler_unfold [OF valid dims found] adv gs_def)
next
  assume h: "CascadeHandler_process
        ((req_GameState req)\<lparr>CascadeCount := wrap64 (CascadeCount (req_GameState req) + 1)\<rparr>) r =
          Some (gs2, found, ap, cnp, cr1) \<and>
      0 < length found \<and>
      FindRegularConnections (Grid gs2) (CurrentLevel gs2) = Some ccurrent \<and>
      0 < length ccurrent \<and>
      payConnections gs2 found = (cpaid, ctw) \<and>
      askOutcome sv req gs2 ctw = Inr ''loss'' \<and>
      surgicalAttempts 50 (CurrentLevel gs2) (GameMode gs2 = ''freeSpins'')
        (min 4 (int (length (remdups cnp)))) (remdups cnp) (Grid gs2) cr1 = Some (None, cr')"
  then have pr: "CascadeHandler_process
        ((req_GameState req)\<lparr>CascadeCount := wrap64 (CascadeCount (req_GameState req) + 1)\<rparr>) r =
          Some (gs2, found, ap, cnp, cr1)"
    and nf: "0 < length found"
    and cur: "FindRegularConnections (Grid gs2) (CurrentLevel gs2) = Some ccurrent"
    and ne: "0 < length ccurrent"
    and paid: "payConnections gs2 found = (cpaid, ctw)"
    and loss: "askOutcome sv req gs2 ctw = Inr ''loss''"
    and ex: "surgicalAttempts 50 (CurrentLevel gs2) (GameMode gs2 = ''freeSpins'')
        (min 4 (int (length (remdups cnp)))) (remdups cnp) (Grid gs2) cr1 = Some (None, cr')"
    by simp_all
  from CascadeHandler_process_shape [OF pr]
  have shape: "map length (Grid gs2) = map length (Grid (req_GameState req))"
    and lvl: "CurrentLevel gs2 = CurrentLevel (req_GameState req)"
    by (simp, metis GameState.select_convs(3) GameState.surjective GameState.update_convs(5)
        GameState.update_convs(14))
  have "squareGrid (nat (GetGridSize (CurrentLevel (req_GameState req)))) (Grid (req_GameState req))"
    using dims by (simp add: ValidateGridDimensions_square)
  from squareGrid_shape [OF shape this] FindStageClearedSymbols_total
  obtain symbols where sym: "FindStageClearedSymbols (Grid gs2) (CurrentLevel gs2) = Some symbols"
    by blast
  note fin = CascadeHandler_finish_exhausted [OF cur ne nf paid loss ex sym,
      of "Grid (req_GameState req)"]
  show "ApplySurgicalLossForCascade gs2 (Grid (req_GameState req)) cnp (CurrentLevel gs2) cr1 =
        Some (False, gs2, cr')"
    by (rule ApplySurgicalLossForCascade_exhausted [OF cur ne ex])
  show "CascadeHandler_reconcile sv req gs2 (Grid (req_GameState req)) cnp cpaid ctw cr1 =
        Inr (gs2, cpaid, ctw, True, cr')"
    using fin by simp
  show "\<exists>symbols. FindStageClearedSymbols (Grid gs2) (CurrentLevel gs2) = Some symbols \<and>
         CascadeHandler sv r req =
           Succeeded
             \<lparr>cr_Status = ''success'', cr_Message = [],
              cr_GameState = gs2\<lparr>StageClearedSymbols := symbols, TotalWin := ctw,
                                 LastConnections := cpaid, Cascading := True\<rparr>,
              cr_Connections = cpaid, cr_StageClearedSymbols = symbols,
              cr_HasStageCleared = (0 < length symbols), cr_TotalCost = 0\<rparr>"
    using fin sym by (simp add: CascadeHandler_unfold [OF valid dims] pr)
qed

lemma surgicalAttempts_stuck:
  assumes "nextPositionOrder r = (ord, r)"
    and "surgicalTry level fb cnt (mapOrder ord allowed) g 0 r = Some (None, r)"
  shows "surgicalAttempts n level fb cnt allowed g r = Some (None, r)"
  by (induction n) (simp_all add: assms)

lemma exampleCascade_valid:
  "validateRequest (ClientID (exampleRequest exampleCascadeState))
     (GameID (exampleRequest exampleCascadeState))
     (PlayerID (exampleRequest exampleCascadeState))
     (BetID (exampleRequest exampleCascadeState))
     (Bet_Amount (req_GameState (exampleRequest exampleCascadeState))) = None"
  by code_simp

lemma exampleCascade_dims:
  "ValidateGridDimensions (Grid (req_GameState (exampleRequest exampleCascadeState)))
     (CurrentLevel (req_GameState (exampleRequest exampleCascadeState)))"
  by code_simp

lemma exampleRand_order: "nextPositionOrder exampleRand = ([], exampleRand)"
  by (simp add: nextPositionOrder_def exampleRand_def)

theorem reconciliation_exhausted_fails_closed_witness:
  "validateRequest ''client'' ''birdsparty'' ''player'' ''bet'' (1/10) = None \<and>
   ValidateGridDimensions exampleStageGrid Level1 \<and>
   ValidateGridDimensions exampleSettledGrid Level1 \<and>
   FindStageClearedSymbols exampleStageGrid Level1 = Some exampleStageFound \<and>
   ProcessStageClearedHandler_advance (exampleStageState 5) exampleStageFound exampleRand =
     Inr ((exampleStageState 9)\<lparr>Grid := exampleSettledGrid\<rparr>, exampleTopRow, exampleRand) \<and>
   FindRegularConnections exampleSettledGrid Level1 = Some exampleTopConnection \<and>
   0 < length exampleTopConnection \<and>
   payConnections (exampleStageState 9) exampleTopConnection = (exampleTopConnection, 1/25) \<and>
   askOutcome lossServices (exampleRequest (exampleStageState 5)) (exampleStageState 9) (1/25) =
     Inr ''loss'' \<and>
   surgicalAttempts 50 Level1 False 3 exampleTopRow exampleSettledGrid exampleRand =
     Some (None, exampleRand) \<and>
   surgicalAttempts 50 Level1 False 4 exampleTopRowInOrder exampleSettledGrid exampleRand =
     Some (None, exampleRand) \<and>
   (\<exists>resp. ProcessStageClearedHandler lossServices exampleRand
             (exampleRequest (exampleStageState 5)) = Succeeded resp \<and>
      pr_Status resp = ''success'' \<and> Grid (pr_GameState resp) = exampleSettledGrid \<and>
      pr_Connections resp = exampleTopConnection \<and> TotalWin (pr_GameState resp) = 1/25) \<and>
   (\<exists>resp. CascadeHandler lossServices exampleRand (exampleRequest exampleCascadeState) =
             Succeeded resp \<and>
      cr_Status resp = ''success'' \<and> Grid (cr_GameState resp) = exampleSettledGrid \<and>
      cr_Connections resp = exampleTopConnection \<and> TotalWin (cr_GameState resp) = 1/25)"
proof -
  define gs1 where "gs1 = (exampleStageState 9)\<lparr>Grid := exampleSettledGrid\<rparr>"
  define gs2 where "gs2 = exampleCascadeState\<lparr>CascadeCount := 2\<rparr>"
  have h1: "validateRequest ''client'' ''birdsparty'' ''player'' ''bet'' (1/10) = None"
    by code_simp
  have h2: "ValidateGridDimensions exampleStageGrid Level1" by code_simp
  have h2': "ValidateGridDimensions exampleSettledGrid Level1" by code_simp
  have h3: "FindStageClearedSymbols exampleStageGrid Level1 = Some exampleStageFound" by code_simp
  have h4: "ProcessStageClearedHandler_advance (exampleStageState 5) exampleStageFound exampleRand =
     Inr (gs1, exampleTopRow, exampleRand)" unfolding gs1_def by code_simp
  have h5: "FindRegularConnections exampleSettledGrid Level1 = Some exampleTopConnection"
    by code_simp
  have h6: "0 < length exampleTopConnection" by (simp add: exampleTopConnection_def)
  have h7: "payConnections (exampleStageState 9) exampleTopConnection = (exampleTopConnection, 1/25)"
    by code_simp
  have h7a: "payConnections (gs1\<lparr>StageClearedSymbols := []\<rparr>) exampleTopConnection =
      (exampleTopConnection, 1/25)" unfolding gs1_def by code_simp
  have h7b: "payConnections gs2 exampleTopConnection = (exampleTopConnection, 1/25)"
    unfolding gs2_def by code_simp
  have h8: "askOutcome lossServices (exampleRequest (exampleStageState 5)) (exampleStageState 9) (1/25) =
     Inr ''loss''" by code_simp
  have h8a: "askOutcome lossServices (exampleRequest (exampleStageState 5))
      (gs1\<lparr>StageClearedSymbols := []\<rparr>) (1/25) = Inr ''loss''"
    unfolding gs1_def by code_simp
  have h8b: "askOutcome lossServices (exampleRequest exampleCascadeState) gs2 (1/25) = Inr ''loss''"
    unfolding gs2_def by code_simp
  have t3: "surgicalTry Level1 False 3 (mapOrder [] exampleTopRow) exampleSettledGrid 0 exampleRand =
      Some (None, exampleRand)" by code_simp
  have t4: "surgicalTry Level1 False 4 (mapOrder [] exampleTopRowInOrder) exampleSettledGrid 0
      exampleRand = Some (None, exampleRand)" by code_simp
  have h9: "surgicalAttempts 50 Level1 False 3 exampleTopRow exampleSettledGrid exampleRand =
     Some (None, exampleRand)"
    by (rule surgicalAttempts_stuck [OF exampleRand_order t3])
  have h10: "surgicalAttempts 50 Level1 False 4 exampleTopRowInOrder exampleSettledGrid exampleRand =
     Some (None, exampleRand)"
    by (rule surgicalAttempts_stuck [OF exampleRand_order t4])
  have sel1: "Grid gs1 = exampleSettledGrid" "CurrentLevel gs1 = Level1"
    "(GameMode gs1 = ''freeSpins'') = False" "remdups exampleTopRow = exampleTopRow"
    "min 3 (int (length exampleTopRow)) = 3"
    unfolding gs1_def by code_simp+
  have sel2: "Grid gs2 = exampleSettledGrid" "CurrentLevel gs2 = Level1"
    "(GameMode gs2 = ''freeSpins'') = False" "remdups exampleTopRowInOrder = exampleTopRowInOrder"
    "min 4 (int (length exampleTopRowInOrder)) = 4"
    unfolding gs2_def by code_simp+
  have req: "req_GameState (exampleRequest gs) = gs" for gs by (simp add: exampleRequest_def)
  have c4: "CascadeHandler_process
      (exampleCascadeState\<lparr>CascadeCount := wrap64 (CascadeCount exampleCascadeState + 1)\<rparr>)
      exampleRand =
      Some (gs2, exampleTopConnection, exampleTopRowInOrder, exampleTopRowInOrder, exampleRand)"
    unfolding gs2_def by code_simp
  note P = reconciliation_exhausted_fails_closed
    [OF exampleStage_valid [of 5] exampleStage_dims [of 5],
     where scs = exampleStageFound and r = exampleRand and ?gs1.0 = gs1
       and np = exampleTopRow and ?r1.0 = exampleRand and current = exampleTopConnection
       and paid = exampleTopConnection and tw = "1/25" and sv = lossServices
       and r' = exampleRand, THEN conjunct1, rule_format]
  have "ProcessStageClearedHandler lossServices exampleRand (exampleRequest (exampleStageState 5)) =
        Succeeded
          \<lparr>pr_Status = ''success'', pr_Message = [],
           pr_GameState = gs1\<lparr>StageClearedSymbols := [], TotalWin := 1/25,
                              LastConnections := exampleTopConnection, Cascading := True,
                              CascadeCount := 1\<rparr>,
           pr_StageClearedCount = int (length exampleStageFound), pr_LevelAdvanced = False,
           pr_OldLevel = CurrentLevel (req_GameState (exampleRequest (exampleStageState 5))),
           pr_NewLevel = CurrentLevel (req_GameState (exampleRequest (exampleStageState 5))),
           pr_Connections = exampleTopConnection, pr_TotalCost = 0\<rparr>"
    using P exampleStage_found [of 5] h4 h5 h6 h7a h8a h9
    by (simp add: sel1 req)
  then have A: "\<exists>resp. ProcessStageClearedHandler lossServices exampleRand
             (exampleRequest (exampleStageState 5)) = Succeeded resp \<and>
      pr_Status resp = ''success'' \<and> Grid (pr_GameState resp) = exampleSettledGrid \<and>
      pr_Connections resp = exampleTopConnection \<and> TotalWin (pr_GameState resp) = 1/25"
    by (simp add: sel1)
  note C = reconciliation_exhausted_fails_closed
    [OF exampleCascade_valid exampleCascade_dims,
     where r = exampleRand and ?gs2.0 = gs2 and found = exampleTopConnection
       and ap = exampleTopRowInOrder and cnp = exampleTopRowInOrder and ?cr1.0 = exampleRand
       and ccurrent = exampleTopConnection and cpaid = exampleTopConnection and ctw = "1/25"
       and sv = lossServices and cr' = exampleRand, THEN conjunct2, rule_format]
  have "\<exists>symbols. FindStageClearedSymbols (Grid gs2) (CurrentLevel gs2) = Some symbols \<and>
         CascadeHandler lossServices exampleRand (exampleRequest exampleCascadeState) =
           Succeeded
             \<lparr>cr_Status = ''success'', cr_Message = [],
              cr_GameState = gs2\<lparr>StageClearedSymbols := symbols, TotalWin := 1/25,
                                 LastConnections := exampleTopConnection, Cascading := True\<rparr>,
              cr_Connections = exampleTopConnection, cr_StageClearedSymbols = symbols,
              cr_HasStageCleared = (0 < length symbols), cr_TotalCost = 0\<rparr>"
    using C c4 h5 h6 h7b h8b h10
    by (simp add: sel2 req)
  then have B: "\<exists>resp. CascadeHandler lossServices exampleRand (exampleRequest exampleCascadeState) =
             Succeeded resp \<and>
      cr_Status resp = ''success'' \<and> Grid (cr_GameState resp) = exampleSettledGrid \<and>
      cr_Connections resp = exampleTopConnection \<and> TotalWin (cr_GameState resp) = 1/25"
    by (auto simp: sel2)
  from h1 h2 h2' h3 h4 h5 h6 h7 h8 h9 h10 A B show ?thesis
    unfolding gs1_def by blast
qed

section \<open>The cost of a spin\<close>

lemma SpinHandler_settle_Inl:
  assumes "SpinHandler_settle sv req gs2 r1 symbols connections totalWinnings = Inl reply"
  shows "reply \<noteq> Succeeded resp"
  using assms unfolding SpinHandler_settle_def
  by (auto split: if_splits sum.splits option.splits prod.splits)

lemma SpinHandler_finish_totalCost:
  assumes "SpinHandler_finish gs3 r3 symbols connections totalWinnings = Succeeded resp"
  shows "sr_TotalCost resp = SpinHandler_totalCost (sr_GameState resp)"
  using assms unfolding SpinHandler_finish_def Let_def
  by (auto split: option.splits prod.splits)

text \<open>
  What the code does in general: the cost is computed from the state the handler returns,
  that is after \<open>// Check for free game symbols\<close> and \<open>// Update free spins count\<close>
  have changed the mode, not from the mode in which the spin was played.
\<close>

lemma SpinHandler_totalCost_returned:
  assumes "SpinHandler sv r req = Succeeded resp"
  shows "sr_TotalCost resp =
           (if GameMode (sr_GameState resp) = ''freeSpins'' then 0
            else Bet_Amount (sr_GameState resp))"
proof -
  from assms obtain gs3 r3 symbols connections totalWinnings where
    "SpinHandler_finish gs3 r3 symbols connections totalWinnings = Succeeded resp"
    unfolding SpinHandler_def Let_def
    by (auto split: option.splits prod.splits sum.splits dest: SpinHandler_settle_Inl)
  then have "sr_TotalCost resp = SpinHandler_totalCost (sr_GameState resp)"
    by (rule SpinHandler_finish_totalCost)
  then show ?thesis by (simp add: SpinHandler_totalCost_def)
qed

text \<open>
  Claim C8: for every successful Spin call the returned TotalCost is 0 if the game is in
  free-spins mode and the bet amount otherwise; in particular a spin played during free
  spins is never charged, and a spin played in base mode is always charged the bet amount.

  The code does not do this. \<open>spinSummary\<close> of a reply is the tuple (TotalCost, GameMode,
  FreeSpins.Remaining, Bet.Amount, Bet.Multiplier) of the response. The theorem runs
  \<open>SpinHandler\<close> on two requests with bet 0.5 at level 1.
  \<^item> The request is in free-spins mode with one free spin remaining: the spin is played as a
    free spin (free_game forbidden in the grid, winnings times the free-spin multiplier),
    the counter reaches 0, the mode is set back to base before the cost is computed, and the
    response charges 0.5.
  \<^item> The request is in base mode and the generated grid holds a free_game symbol: the mode is
    set to freeSpins before the cost is computed, and the response charges 0.
\<close>

theorem SpinHandler_cost_after_mode_change:
  "GameMode (req_GameState (exampleRequest (exampleSpinState ''freeSpins'' 1 Level1))) = ''freeSpins'' \<and>
   spinSummary (SpinHandler exampleServices exampleRand
                  (exampleRequest (exampleSpinState ''freeSpins'' 1 Level1)))
     = Some (1/2, ''base'', 0, 1/2, 5) \<and>
   GameMode (req_GameState (exampleRequest (exampleSpinState ''base'' 0 Level1))) = ''base'' \<and>
   spinSummary (SpinHandler exampleServices triggerRand
                  (exampleRequest (exampleSpinState ''base'' 0 Level1)))
     = Some (0, ''freeSpins'', 9, 1/2, 5)"
proof -
  have a: "GameMode (req_GameState (exampleRequest (exampleSpinState ''freeSpins'' 1 Level1))) = ''freeSpins''"
    by (simp add: exampleRequest_def exampleSpinState_def)
  have b: "spinSummary (SpinHandler exampleServices exampleRand
                  (exampleRequest (exampleSpinState ''freeSpins'' 1 Level1)))
     = Some (1/2, ''base'', 0, 1/2, 5)"
    by code_simp
  have c: "GameMode (req_GameState (exampleRequest (exampleSpinState ''base'' 0 Level1))) = ''base''"
    by (simp add: exampleRequest_def exampleSpinState_def)
  have d: "spinSummary (SpinHandler exampleServices triggerRand
                  (exampleRequest (exampleSpinState ''base'' 0 Level1)))
     = Some (0, ''freeSpins'', 9, 1/2, 5)"
    by code_simp
  from a b c d show ?thesis by blast
qed

section \<open>Bet validation and the bet multiplier\<close>

lemma isValidBetAmount_iff:
  "isValidBetAmount a \<longleftrightarrow> a \<in> {1/10, 1/5, 3/10, 1/2, 1}"
  by (auto simp: isValidBetAmount_def)

lemma validateRequest_bet:
  assumes "\<not> isValidBetAmount a"
  shows "\<exists>err. validateRequest c g p b a = Some err"
  using assms by (simp add: validateRequest_def)

text \<open>
  A request that fails validation is answered with status 400 by each of the three handlers,
  whatever the services and the random source are: nothing of them is consulted.
\<close>

lemma SpinHandler_rejects:
  assumes "validateRequest (ClientID req) (GameID req) (PlayerID req) (BetID req)
             (Bet_Amount (req_GameState req)) = Some err"
  shows "SpinHandler sv r req = Failed 400 err"
  using assms by (simp add: SpinHandler_def)

lemma ProcessStageClearedHandler_rejects:
  assumes "validateRequest (ClientID req) (GameID req) (PlayerID req) (BetID req)
             (Bet_Amount (req_GameState req)) = Some err"
  shows "ProcessStageClearedHandler sv r req = Failed 400 err"
  using assms by (simp add: ProcessStageClearedHandler_def)

lemma CascadeHandler_rejects:
  assumes "validateRequest (ClientID req) (GameID req) (PlayerID req) (BetID req)
             (Bet_Amount (req_GameState req)) = Some err"
  shows "CascadeHandler sv r req = Failed 400 err"
  using assms by (simp add: CascadeHandler_def)

lemma lookupMultiplier_valid:
  "lookupMultiplier (1/10) = 1" "lookupMultiplier (1/5) = 2" "lookupMultiplier (3/10) = 3"
  "lookupMultiplier (1/2) = 5" "lookupMultiplier 1 = 10"
  by (simp_all add: lookupMultiplier_def BetAmountToMultiplier_def)

lemma SpinHandler_freeSpins_bet:
  "Bet_Amount (fst (SpinHandler_freeSpins gs n r)) = Bet_Amount gs"
  "Bet_Multiplier (fst (SpinHandler_freeSpins gs n r)) = Bet_Multiplier gs"
  unfolding SpinHandler_freeSpins_def Let_def
  by (auto split: prod.splits if_splits)

lemma SpinHandler_settle_bet:
  assumes "SpinHandler_settle sv req gs2 r1 symbols connections totalWinnings
             = Inr (gs3, r3, symbols', connections', totalWinnings')"
  shows "Bet_Amount gs3 = Bet_Amount gs2 \<and> Bet_Multiplier gs3 = Bet_Multiplier gs2"
  using assms unfolding SpinHandler_settle_def
  by (auto split: if_splits sum.splits option.splits prod.splits)

lemma SpinHandler_finish_bet:
  assumes "SpinHandler_finish gs3 r3 symbols connections totalWinnings = Succeeded resp"
  shows "Bet_Amount (sr_GameState resp) = Bet_Amount gs3 \<and>
         Bet_Multiplier (sr_GameState resp) = Bet_Multiplier gs3"
proof -
  let ?gs4 = "gs3\<lparr>CascadeCount := 0, TotalWin := totalWinnings, LastConnections := connections,
                    Cascading := (length connections > 0)\<rparr>"
  from assms obtain n gs5 r4 where
    p: "SpinHandler_freeSpins ?gs4 n r3 = (gs5, r4)" and q: "sr_GameState resp = gs5"
    unfolding SpinHandler_finish_def Let_def
    by (auto split: option.splits prod.splits)
  from p have "gs5 = fst (SpinHandler_freeSpins ?gs4 n r3)" by simp
  with q show ?thesis by (simp add: SpinHandler_freeSpins_bet)
qed

text \<open>
  What the code does in general: the multiplier of the returned state is the table entry of
  the bet amount of the state as it stands after \<open>// Initialize game state if needed\<close>.
  For a request whose level is not 0 that is the validated amount of the request.
\<close>

lemma SpinHandler_multiplier:
  assumes "SpinHandler sv r req = Succeeded resp"
  shows "Bet_Multiplier (sr_GameState resp)
           = lookupMultiplier (Bet_Amount (SpinHandler_prepare (req_GameState req))) \<and>
         Bet_Amount (sr_GameState resp) = Bet_Amount (SpinHandler_prepare (req_GameState req))"
proof -
  let ?gs1 = "SpinHandler_prepare (req_GameState req)"
  from assms obtain grid scs sv' r1 symbols connections totalWinnings gs3 r3 symbols'
      connections' totalWinnings' where
    s: "SpinHandler_settle sv' req (?gs1\<lparr>Grid := grid, StageClearedSymbols := scs\<rparr>) r1
          symbols connections totalWinnings = Inr (gs3, r3, symbols', connections', totalWinnings')"
    and f: "SpinHandler_finish gs3 r3 symbols' connections' totalWinnings' = Succeeded resp"
    unfolding SpinHandler_def Let_def
    by (auto split: option.splits prod.splits sum.splits dest: SpinHandler_settle_Inl)
  have m: "Bet_Multiplier ?gs1 = lookupMultiplier (Bet_Amount ?gs1)"
    unfolding SpinHandler_prepare_def Let_def by simp
  from SpinHandler_settle_bet [OF s] SpinHandler_finish_bet [OF f] m
  show ?thesis by simp
qed

lemma SpinHandler_prepare_bet:
  "Bet_Amount (SpinHandler_prepare gs) = (if CurrentLevel gs = 0 then 0 else Bet_Amount gs)"
  unfolding SpinHandler_prepare_def Let_def
  by (simp add: InitializeGameState_def)

lemma SpinHandler_multiplier_level:
  assumes "SpinHandler sv r req = Succeeded resp"
      and "CurrentLevel (req_GameState req) \<noteq> 0"
  shows "Bet_Multiplier (sr_GameState resp) = lookupMultiplier (Bet_Amount (req_GameState req))"
  using SpinHandler_multiplier [OF assms(1)] assms(2)
  by (simp add: SpinHandler_prepare_bet)

text \<open>
  Claim C9: for every inbound request, a bet amount outside {0.1, 0.2, 0.3, 0.5, 1.0} is
  rejected by validation before any grid generation, detection or service call runs, and
  for every accepted bet amount the multiplier assigned to the game state is the
  corresponding element of {1, 2, 3, 5, 10}.

  The first half holds (\<open>SpinHandler_rejects\<close>, \<open>ProcessStageClearedHandler_rejects\<close>,
  \<open>CascadeHandler_rejects\<close> with \<open>validateRequest_bet\<close>). The second half does not hold
  for a Spin request whose level is 0: the bet amount 0.5 passes validation, then
  \<open>// Initialize game state if needed\<close> replaces the whole state, the validated bet included,
  by \<open>InitializeGameState()\<close>, whose bet amount is 0, and \<open>// Set bet multiplier\<close> assigns
  \<open>BetAmountToMultiplier[0]\<close>, the zero value of a missing key. The theorem runs the
  handler on such a request: the response carries bet amount 0, multiplier 0 and cost 0.
  \<open>spinSummary\<close> of a reply is the tuple (TotalCost, GameMode, FreeSpins.Remaining,
  Bet.Amount, Bet.Multiplier) of the response.
\<close>

theorem SpinHandler_level0_multiplier:
  "validateRequest ''client'' ''birdsparty'' ''player'' ''bet''
     (Bet_Amount (req_GameState (exampleRequest (exampleSpinState ''base'' 0 0)))) = None \<and>
   lookupMultiplier (Bet_Amount (req_GameState (exampleRequest (exampleSpinState ''base'' 0 0)))) = 5 \<and>
   spinSummary (SpinHandler exampleServices exampleRand
                  (exampleRequest (exampleSpinState ''base'' 0 0)))
     = Some (0, ''base'', 0, 0, 0)"
proof -
  have a: "validateRequest ''client'' ''birdsparty'' ''player'' ''bet''
     (Bet_Amount (req_GameState (exampleRequest (exampleSpinState ''base'' 0 0)))) = None"
    by code_simp
  have b: "lookupMultiplier (Bet_Amount (req_GameState (exampleRequest (exampleSpinState ''base'' 0 0)))) = 5"
    by code_simp
  have c: "spinSummary (SpinHandler exampleServices exampleRand
                  (exampleRequest (exampleSpinState ''base'' 0 0)))
     = Some (0, ''base'', 0, 0, 0)"
    by code_simp
  from a b c show ?thesis by blast
qed

end
